theory Spec2Isabelle
  imports Complex_Main "HOL-Library.Word" "HOL-Library.Sublist"
begin

section \<open>Scallywag-Engine: the Direct3D 12 frame lifecycle\<close>

text \<open>
  The repository holds two programs: \<^verbatim>\<open>dx12window.cpp\<close> (clear the back buffer each frame)
  and \<^verbatim>\<open>main.cpp\<close> (clear, then draw one triangle). Both are straight-line sequences of
  calls into Win32, DXGI and Direct3D 12 over a handful of global variables. The embedding
  keeps that shape: a function of the source is the list of its statements, a statement is a
  step on a world made of the program's globals, the state of the platform objects the
  program talks to, and the trace of API calls made so far. What the platform answers
  (HRESULTs, handles, sizes, whether the GPU has finished) is a parameter \<open>env\<close>.
\<close>

subsection \<open>Values\<close>

type_synonym handle = nat \<comment> \<open>a COM pointer or OS handle; 0 is \<^verbatim>\<open>nullptr\<close>\<close>
type_synonym HRESULT = int
type_synonym UINT = "32 word"
type_synonym UINT64 = "64 word"
type_synonym SIZE_T = "64 word" \<comment> \<open>an x64 build\<close>

definition FAILED :: "HRESULT \<Rightarrow> bool" where
  "FAILED hr = (hr < 0)"

datatype error = runtime_error string

text \<open>
  \<^verbatim>\<open>struct Vertex { float pos[3]; float col[4]; };\<close> The \<^verbatim>\<open>float\<close> literals of the source
  are kept as the numbers written there; the program never computes with them.
\<close>

record Vertex =
  pos :: "real list"
  col :: "real list"

definition sizeof_float :: nat where
  "sizeof_float = 4"

definition sizeof_Vertex :: nat where
  "sizeof_Vertex = 3 * sizeof_float + 4 * sizeof_float"

record D3D12_VERTEX_BUFFER_VIEW =
  BufferLocation :: UINT64
  StrideInBytes :: nat
  SizeInElements :: nat

record D3D12_VIEWPORT =
  TopLeftX :: real
  TopLeftY :: real
  Width :: real
  Height :: real
  MinDepth :: real
  MaxDepth :: real

record D3D12_RECT =
  left :: int
  top :: int
  right :: int
  bottom :: int

datatype D3D12_HEAP_TYPE =
  D3D12_HEAP_TYPE_DEFAULT | D3D12_HEAP_TYPE_UPLOAD | D3D12_HEAP_TYPE_READBACK

datatype D3D12_RESOURCE_STATES =
  D3D12_RESOURCE_STATE_PRESENT
  | D3D12_RESOURCE_STATE_RENDER_TARGET
  | D3D12_RESOURCE_STATE_GENERIC_READ

datatype D3D_PRIMITIVE_TOPOLOGY =
  D3D_PRIMITIVE_TOPOLOGY_POINTLIST
  | D3D_PRIMITIVE_TOPOLOGY_LINELIST
  | D3D_PRIMITIVE_TOPOLOGY_TRIANGLELIST
  | D3D_PRIMITIVE_TOPOLOGY_TRIANGLESTRIP

datatype timeout = INFINITE | Milliseconds nat

datatype msg = WM_DESTROY | WM_QUIT | WM_OTHER nat

subsection \<open>API calls\<close>

text \<open>
  One constructor for each platform function the two programs call, with the arguments the
  source passes where they vary or carry meaning, grouped by the interface they belong to:
  Win32 and the C runtime, the factory, device and compilers, the methods of the objects
  the device creates, and the commands recorded into the graphics command list.
  \<open>ResourceBarrier\<close> is part of the command list interface and is listed so that its
  absence from a trace can be stated.
\<close>

datatype win32_call =
    RegisterClass
  | CreateWindowEx nat nat
  | ShowWindow handle
  | UpdateWindow handle
  | PeekMessage
  | TranslateMessage msg
  | DispatchMessage msg
  | PostQuitMessage int
  | DefWindowProc msg
  | CreateEvent
  | WaitForSingleObject handle timeout
  | CloseHandle handle
  | OutputDebugStringA
  | memcpy "Vertex list" nat

datatype device_call =
    CreateDXGIFactory1
  | D3D12CreateDevice
  | CreateCommandQueue
  | CreateSwapChainForHwnd handle handle nat
  | CreateDescriptorHeap nat
  | GetDescriptorHandleIncrementSize
  | CreateRenderTargetView handle SIZE_T
  | CreateCommandAllocator
  | CreateCommandList handle handle
  | CreateFence UINT64
  | D3D12SerializeRootSignature
  | CreateRootSignature
  | D3DCompile string string
  | CreateGraphicsPipelineState handle
  | CreateCommittedResource D3D12_HEAP_TYPE nat D3D12_RESOURCE_STATES

datatype object_call =
    As_IDXGISwapChain3
  | GetCurrentBackBufferIndex
  | GetBuffer nat
  | Present nat nat
  | GetCPUDescriptorHandleForHeapStart
  | Map_Resource nat "(nat \<times> nat) option"
  | Unmap_Resource nat "(nat \<times> nat) option"
  | GetGPUVirtualAddress
  | CommandAllocator_Reset
  | ExecuteCommandLists "handle list"
  | Signal handle UINT64
  | GetCompletedValue
  | SetEventOnCompletion UINT64 handle

datatype list_call =
    Reset handle handle
  | Close
  | RSSetViewports "D3D12_VIEWPORT list"
  | RSSetScissorRects "D3D12_RECT list"
  | OMSetRenderTargets "SIZE_T list"
  | ClearRenderTargetView SIZE_T "real list"
  | IASetPrimitiveTopology D3D_PRIMITIVE_TOPOLOGY
  | IASetVertexBuffers nat "D3D12_VERTEX_BUFFER_VIEW list"
  | DrawInstanced nat nat nat nat
  | ResourceBarrier D3D12_RESOURCE_STATES D3D12_RESOURCE_STATES

datatype api_call =
    Win32 win32_call
  | Device device_call
  | Object object_call
  | Cmd list_call

subsection \<open>The platform\<close>

text \<open>
  What the platform answers to the program. \<open>hr\<close> is the HRESULT of a call, \<open>created\<close> the
  object or handle a creating call hands back, \<open>rtv_increment\<close> and \<open>heap_start\<close> what the
  device and the RTV heap report, \<open>gpu_address\<close> the vertex buffer's GPU virtual address.
  \<open>gpu_done_at_poll\<close> says whether the GPU has executed the queue's last signal when the
  program polls the fence, \<open>event_fires\<close> whether the fence event is ever set once the
  program waits for it, \<open>error_blob\<close> whether a failed shader compile hands back messages.
\<close>

record env =
  hr :: "api_call \<Rightarrow> HRESULT"
  created :: "api_call \<Rightarrow> handle"
  rtv_increment :: UINT
  heap_start :: SIZE_T
  gpu_address :: UINT64
  gpu_done_at_poll :: bool
  event_fires :: bool
  error_blob :: bool

text \<open>
  The state of the platform objects that the properties below speak about: the fence's completed
  value, the last value the queue was told to signal, the swap chain's current back-buffer
  index, and whether \<open>PostQuitMessage\<close> has been called and \<open>WM_QUIT\<close> not yet retrieved.
\<close>

record platform =
  fence_completed :: UINT64
  fence_signaled :: UINT64
  current_back_buffer :: UINT
  quit_posted :: bool

text \<open>
  Modelled from the spec: the effect of a successful API call on the Direct3D 12, DXGI and
  Win32 objects, which are not code of this repository. A fence is created with the value
  passed to \<open>CreateFence\<close>; \<open>Signal(fence, v)\<close> is ordered after every prior submission on
  the queue and the fence reaches \<open>v\<close> when those have completed (section 5 of the spec),
  which the poll observes if the GPU is done by then and the wait observes when it returns;
  a 2-buffer flip-discard swap chain starts at back buffer 0 and \<open>Present\<close> moves to the
  other buffer (section 8, property 4); \<open>PostQuitMessage\<close> makes the message queue deliver
  \<open>WM_QUIT\<close> once it is otherwise empty.
\<close>

definition effect :: "env \<Rightarrow> api_call \<Rightarrow> platform \<Rightarrow> platform" where
  "effect e c p =
     (case c of
        Device (CreateFence v) \<Rightarrow> p\<lparr>fence_completed := v, fence_signaled := v\<rparr>
      | Object (Signal f v) \<Rightarrow> p\<lparr>fence_signaled := v\<rparr>
      | Object GetCompletedValue \<Rightarrow>
          (if gpu_done_at_poll e then p\<lparr>fence_completed := fence_signaled p\<rparr> else p)
      | Win32 (WaitForSingleObject h t) \<Rightarrow> p\<lparr>fence_completed := fence_signaled p\<rparr>
      | Device (CreateSwapChainForHwnd q h n) \<Rightarrow> p\<lparr>current_back_buffer := 0\<rparr>
      | Object (Present s f) \<Rightarrow>
          p\<lparr>current_back_buffer := (current_back_buffer p + 1) mod 2\<rparr>
      | Win32 (PostQuitMessage n) \<Rightarrow> p\<lparr>quit_posted := True\<rparr>
      | _ \<Rightarrow> p)"

subsection \<open>Program state and statements\<close>

text \<open>The globals of \<^verbatim>\<open>dx12window.cpp\<close>, and those \<^verbatim>\<open>main.cpp\<close> adds.\<close>

record globals =
  g_device :: handle
  g_swapChain :: handle
  g_commandQueue :: handle
  g_commandAllocator :: handle
  g_commandList :: handle
  g_rtvHeap :: handle
  g_fence :: handle
  g_fenceValue :: UINT64
  g_fenceEvent :: handle
  g_renderTargets :: "nat \<Rightarrow> handle" \<comment> \<open>an array of 2; only indices 0 and 1 are used\<close>
  g_frameIndex :: UINT

record globals_triangle = globals +
  g_rootSig :: handle
  g_pipelineState :: handle
  g_vertexBuffer :: handle
  g_vbView :: D3D12_VERTEX_BUFFER_VIEW

record 'g world =
  globals :: 'g
  platform :: platform
  trace :: "api_call list"

datatype status = Normal | Raised error | Blocked

type_synonym 'g step = "'g world \<Rightarrow> status \<times> 'g world"

text \<open>Statements run in order; the first that raises or blocks ends the run.\<close>

fun exec :: "'g step list \<Rightarrow> 'g step" where
  "exec [] w = (Normal, w)"
| "exec (s # ss) w = (case s w of (Normal, w') \<Rightarrow> exec ss w' | r \<Rightarrow> r)"

definition logged :: "api_call \<Rightarrow> 'g world \<Rightarrow> 'g world" where
  "logged c w = w\<lparr>trace := trace w @ [c]\<rparr>"

definition called :: "env \<Rightarrow> api_call \<Rightarrow> 'g world \<Rightarrow> 'g world" where
  "called e c w = (logged c w)\<lparr>platform := effect e c (platform w)\<rparr>"

text \<open>A call whose result is not checked (a \<^verbatim>\<open>void\<close> method, or an ignored return value).\<close>

definition call :: "env \<Rightarrow> ('g \<Rightarrow> api_call) \<Rightarrow> 'g step" where
  "call e f w = (Normal, called e (f (globals w)) w)"

text \<open>
  \<^verbatim>\<open>inline void ThrowIfFailed(HRESULT hr) { if (FAILED(hr)) throw std::runtime_error("HRESULT failed"); }\<close>
  applied to the result of a call.
\<close>

definition ThrowIfFailed :: "env \<Rightarrow> ('g \<Rightarrow> api_call) \<Rightarrow> 'g step" where
  "ThrowIfFailed e f w =
     (let c = f (globals w) in
      if FAILED (hr e c) then (Raised (runtime_error ''HRESULT failed''), logged c w)
      else (Normal, called e c w))"

text \<open>
  An assignment to globals; the right-hand side may read what the platform reports. A
  statement that assigns the result of a call is the call followed by the assignment.
\<close>

definition assign :: "('g \<Rightarrow> platform \<Rightarrow> 'g) \<Rightarrow> 'g step" where
  "assign f w = (Normal, w\<lparr>globals := f (globals w) (platform w)\<rparr>)"

text \<open>\<^verbatim>\<open>if (cond) throw std::runtime_error(msg);\<close>\<close>

definition throw_if :: "('g \<Rightarrow> bool) \<Rightarrow> string \<Rightarrow> 'g step" where
  "throw_if cond msg w = (if cond (globals w) then (Raised (runtime_error msg), w) else (Normal, w))"

subsection \<open>Render\<close>

text \<open>
  \<^verbatim>\<open>rtvHandle.ptr += g_frameIndex * rtvSize;\<close> The product is computed in \<^verbatim>\<open>UINT\<close> and
  widened to the pointer's width.
\<close>

definition rtvHandle :: "env \<Rightarrow> UINT \<Rightarrow> SIZE_T" where
  "rtvHandle e frameIndex = heap_start e + ucast (frameIndex * rtv_increment e)"

definition clearColor :: "real list" where
  "clearColor = [0.2, 0.4, 0.6, 1.0]"

text \<open>
  The end of both \<open>Render\<close> functions:
  \<^verbatim>\<open>if (g_fence->GetCompletedValue() < g_fenceValue) {
       ThrowIfFailed(g_fence->SetEventOnCompletion(g_fenceValue, g_fenceEvent));
       WaitForSingleObject(g_fenceEvent, INFINITE); }\<close>
  A wait with \<open>INFINITE\<close> returns only when the event is set.
\<close>

definition wait_for_event :: "env \<Rightarrow> ('g \<Rightarrow> api_call) \<Rightarrow> 'g step" where
  "wait_for_event e f w =
     (let c = f (globals w) in
      if event_fires e then (Normal, called e c w) else (Blocked, logged c w))"

definition wait_for_fence :: "env \<Rightarrow> ('a globals_scheme) step" where
  "wait_for_fence e w =
     (let w1 = called e (Object GetCompletedValue) w in
      if fence_completed (platform w1) < g_fenceValue (globals w1) then
        exec [ThrowIfFailed e (\<lambda>g. Object (SetEventOnCompletion (g_fenceValue g) (g_fenceEvent g))),
              wait_for_event e (\<lambda>g. Win32 (WaitForSingleObject (g_fenceEvent g) INFINITE))] w1
      else (Normal, w1))"

text \<open>\<open>Render\<close> of \<^verbatim>\<open>main.cpp\<close> (lines 283 to 326), statement by statement.\<close>

definition Render_steps :: "env \<Rightarrow> (globals_triangle step) list" where
  "Render_steps e =
     [ThrowIfFailed e (\<lambda>g. Object CommandAllocator_Reset),
      ThrowIfFailed e (\<lambda>g. Cmd (Reset (g_commandAllocator g) (g_pipelineState g))),
      call e (\<lambda>g. Cmd (RSSetViewports
        [\<lparr>TopLeftX = 0, TopLeftY = 0, Width = 800, Height = 600, MinDepth = 0, MaxDepth = 1\<rparr>])),
      call e (\<lambda>g. Cmd (RSSetScissorRects [\<lparr>left = 0, top = 0, right = 800, bottom = 600\<rparr>])),
      call e (\<lambda>g. Device GetDescriptorHandleIncrementSize),
      call e (\<lambda>g. Object GetCPUDescriptorHandleForHeapStart),
      call e (\<lambda>g. Cmd (OMSetRenderTargets [rtvHandle e (g_frameIndex g)])),
      call e (\<lambda>g. Cmd (ClearRenderTargetView (rtvHandle e (g_frameIndex g)) clearColor)),
      call e (\<lambda>g. Cmd (IASetPrimitiveTopology D3D_PRIMITIVE_TOPOLOGY_TRIANGLELIST)),
      call e (\<lambda>g. Cmd (IASetVertexBuffers 0 [g_vbView g])),
      call e (\<lambda>g. Cmd (DrawInstanced 3 1 0 0)),
      ThrowIfFailed e (\<lambda>g. Cmd Close),
      call e (\<lambda>g. Object (ExecuteCommandLists [g_commandList g])),
      ThrowIfFailed e (\<lambda>g. Object (Present 1 0)),
      ThrowIfFailed e (\<lambda>g. Object (Signal (g_fence g) (g_fenceValue g))),
      wait_for_fence e,
      assign (\<lambda>g p. g\<lparr>g_fenceValue := g_fenceValue g + 1\<rparr>),
      call e (\<lambda>g. Object GetCurrentBackBufferIndex),
      assign (\<lambda>g p. g\<lparr>g_frameIndex := current_back_buffer p\<rparr>)]"

definition Render :: "env \<Rightarrow> globals_triangle step" where
  "Render e = exec (Render_steps e)"

text \<open>\<open>Render\<close> of \<^verbatim>\<open>dx12window.cpp\<close> (lines 97 to 126).\<close>

definition Render_window_steps :: "env \<Rightarrow> (globals step) list" where
  "Render_window_steps e =
     [ThrowIfFailed e (\<lambda>g. Object CommandAllocator_Reset),
      ThrowIfFailed e (\<lambda>g. Cmd (Reset (g_commandAllocator g) 0)),
      call e (\<lambda>g. Device GetDescriptorHandleIncrementSize),
      call e (\<lambda>g. Object GetCPUDescriptorHandleForHeapStart),
      call e (\<lambda>g. Cmd (ClearRenderTargetView (rtvHandle e (g_frameIndex g)) clearColor)),
      ThrowIfFailed e (\<lambda>g. Cmd Close),
      call e (\<lambda>g. Object (ExecuteCommandLists [g_commandList g])),
      ThrowIfFailed e (\<lambda>g. Object (Present 1 0)),
      ThrowIfFailed e (\<lambda>g. Object (Signal (g_fence g) (g_fenceValue g))),
      wait_for_fence e,
      assign (\<lambda>g p. g\<lparr>g_fenceValue := g_fenceValue g + 1\<rparr>),
      call e (\<lambda>g. Object GetCurrentBackBufferIndex),
      assign (\<lambda>g p. g\<lparr>g_frameIndex := current_back_buffer p\<rparr>)]"

definition Render_window :: "env \<Rightarrow> globals step" where
  "Render_window e = exec (Render_window_steps e)"

subsection \<open>InitD3D12\<close>

text \<open>
  \<^verbatim>\<open>for (UINT i = 0; i < 2; ++i) {
       ThrowIfFailed(g_swapChain->GetBuffer(i, IID_PPV_ARGS(&g_renderTargets[i])));
       g_device->CreateRenderTargetView(g_renderTargets[i].Get(), nullptr, rtvHandle);
       rtvHandle.ptr += rtvSize; }\<close>
  with the loop counter and the local \<^verbatim>\<open>rtvHandle\<close> as arguments.
\<close>

function create_rtvs :: "env \<Rightarrow> nat \<Rightarrow> SIZE_T \<Rightarrow> ('a globals_scheme) step" where
  "create_rtvs e i h w =
     (if i < 2 then
        (case exec
           [ThrowIfFailed e (\<lambda>g. Object (GetBuffer i)),
            assign (\<lambda>g p. g\<lparr>g_renderTargets := (g_renderTargets g)(i := created e (Object (GetBuffer i)))\<rparr>),
            call e (\<lambda>g. Device (CreateRenderTargetView (g_renderTargets g i) h))] w of
           (Normal, w') \<Rightarrow> create_rtvs e (Suc i) (h + ucast (rtv_increment e)) w'
         | r \<Rightarrow> r)
      else (Normal, w))"
  by pat_completeness auto
termination
  by (relation "measure (\<lambda>(e, i, h, w). 2 - i)") auto

text \<open>
  \<open>InitD3D12\<close> of \<^verbatim>\<open>dx12window.cpp\<close> (lines 31 to 94); \<^verbatim>\<open>main.cpp\<close> (lines 79 to 145) starts
  with the same statements. A creating call writes its out-parameter when it succeeds.
\<close>

definition InitD3D12_window_steps :: "env \<Rightarrow> handle \<Rightarrow> (('a globals_scheme) step) list" where
  "InitD3D12_window_steps e hwnd =
     [ThrowIfFailed e (\<lambda>g. Device CreateDXGIFactory1),
      ThrowIfFailed e (\<lambda>g. Device D3D12CreateDevice),
      assign (\<lambda>g p. g\<lparr>g_device := created e (Device D3D12CreateDevice)\<rparr>),
      ThrowIfFailed e (\<lambda>g. Device CreateCommandQueue),
      assign (\<lambda>g p. g\<lparr>g_commandQueue := created e (Device CreateCommandQueue)\<rparr>),
      ThrowIfFailed e (\<lambda>g. Device (CreateSwapChainForHwnd (g_commandQueue g) hwnd 2)),
      ThrowIfFailed e (\<lambda>g. Object As_IDXGISwapChain3),
      assign (\<lambda>g p. g\<lparr>g_swapChain := created e (Object As_IDXGISwapChain3)\<rparr>),
      call e (\<lambda>g. Object GetCurrentBackBufferIndex),
      assign (\<lambda>g p. g\<lparr>g_frameIndex := current_back_buffer p\<rparr>),
      ThrowIfFailed e (\<lambda>g. Device (CreateDescriptorHeap 2)),
      assign (\<lambda>g p. g\<lparr>g_rtvHeap := created e (Device (CreateDescriptorHeap 2))\<rparr>),
      call e (\<lambda>g. Device GetDescriptorHandleIncrementSize),
      call e (\<lambda>g. Object GetCPUDescriptorHandleForHeapStart),
      create_rtvs e 0 (heap_start e),
      ThrowIfFailed e (\<lambda>g. Device CreateCommandAllocator),
      assign (\<lambda>g p. g\<lparr>g_commandAllocator := created e (Device CreateCommandAllocator)\<rparr>),
      ThrowIfFailed e (\<lambda>g. Device (CreateCommandList (g_commandAllocator g) 0)),
      assign (\<lambda>g p. g\<lparr>g_commandList :=
        created e (Device (CreateCommandList (g_commandAllocator g) 0))\<rparr>),
      call e (\<lambda>g. Cmd Close),
      ThrowIfFailed e (\<lambda>g. Device (CreateFence 0)),
      assign (\<lambda>g p. g\<lparr>g_fence := created e (Device (CreateFence 0))\<rparr>),
      assign (\<lambda>g p. g\<lparr>g_fenceValue := 1\<rparr>),
      call e (\<lambda>g. Win32 CreateEvent),
      assign (\<lambda>g p. g\<lparr>g_fenceEvent := created e (Win32 CreateEvent)\<rparr>),
      throw_if (\<lambda>g. g_fenceEvent g = 0) ''Failed to create fence event'']"

definition InitD3D12_window :: "env \<Rightarrow> handle \<Rightarrow> globals step" where
  "InitD3D12_window e hwnd = exec (InitD3D12_window_steps e hwnd)"

text \<open>
  \<^verbatim>\<open>HRESULT hr = D3D12SerializeRootSignature(...);
     if (FAILED(hr)) throw std::runtime_error("Failed to serialize root signature");\<close>
\<close>

definition serialize_root_signature :: "env \<Rightarrow> 'g step" where
  "serialize_root_signature e w =
     (if FAILED (hr e (Device D3D12SerializeRootSignature))
      then (Raised (runtime_error ''Failed to serialize root signature''),
            logged (Device D3D12SerializeRootSignature) w)
      else (Normal, called e (Device D3D12SerializeRootSignature) w))"

text \<open>
  \<open>CompileShader\<close> (lines 58 to 74 of \<^verbatim>\<open>main.cpp\<close>): a failed compile writes the error blob,
  if there is one, to the debug stream and throws.
\<close>

definition CompileShader :: "env \<Rightarrow> string \<Rightarrow> string \<Rightarrow> 'g step" where
  "CompileShader e entry target w =
     (if FAILED (hr e (Device (D3DCompile entry target))) then
        (Raised (runtime_error ''Shader compilation failed''),
         (if error_blob e then logged (Win32 OutputDebugStringA) else id)
           (logged (Device (D3DCompile entry target)) w))
      else (Normal, called e (Device (D3DCompile entry target)) w))"

definition vertices :: "Vertex list" where
  "vertices =
     [\<lparr>pos = [0.0, 0.5, 0.0], col = [1, 0, 0, 1]\<rparr>,
      \<lparr>pos = [-0.5, -0.5, 0.0], col = [0, 1, 0, 1]\<rparr>,
      \<lparr>pos = [0.5, -0.5, 0.0], col = [0, 0, 1, 1]\<rparr>]"

text \<open>\<^verbatim>\<open>const UINT vbSize = sizeof(vertices);\<close>\<close>

definition vbSize :: nat where
  "vbSize = length vertices * sizeof_Vertex"

text \<open>The statements \<^verbatim>\<open>main.cpp\<close> adds to \<open>InitD3D12\<close> (lines 151 to 277).\<close>

definition InitD3D12_triangle_steps :: "env \<Rightarrow> (globals_triangle step) list" where
  "InitD3D12_triangle_steps e =
     [serialize_root_signature e,
      ThrowIfFailed e (\<lambda>g. Device CreateRootSignature),
      assign (\<lambda>g p. g\<lparr>g_rootSig := created e (Device CreateRootSignature)\<rparr>),
      CompileShader e ''main'' ''vs_5_0'',
      CompileShader e ''main'' ''ps_5_0'',
      ThrowIfFailed e (\<lambda>g. Device (CreateGraphicsPipelineState (g_rootSig g))),
      assign (\<lambda>g p. g\<lparr>g_pipelineState :=
        created e (Device (CreateGraphicsPipelineState (g_rootSig g)))\<rparr>),
      ThrowIfFailed e (\<lambda>g. Device (CreateCommittedResource
        D3D12_HEAP_TYPE_UPLOAD vbSize D3D12_RESOURCE_STATE_GENERIC_READ)),
      assign (\<lambda>g p. g\<lparr>g_vertexBuffer := created e (Device (CreateCommittedResource
        D3D12_HEAP_TYPE_UPLOAD vbSize D3D12_RESOURCE_STATE_GENERIC_READ))\<rparr>),
      ThrowIfFailed e (\<lambda>g. Object (Map_Resource 0 (Some (0, 0)))),
      call e (\<lambda>g. Win32 (memcpy vertices vbSize)),
      call e (\<lambda>g. Object (Unmap_Resource 0 None)),
      call e (\<lambda>g. Object GetGPUVirtualAddress),
      assign (\<lambda>g p. g\<lparr>g_vbView := (g_vbView g)\<lparr>BufferLocation := gpu_address e\<rparr>\<rparr>),
      assign (\<lambda>g p. g\<lparr>g_vbView := (g_vbView g)\<lparr>StrideInBytes := sizeof_Vertex\<rparr>\<rparr>),
      assign (\<lambda>g p. g\<lparr>g_vbView := (g_vbView g)\<lparr>SizeInElements := length vertices\<rparr>\<rparr>)]"

definition InitD3D12 :: "env \<Rightarrow> handle \<Rightarrow> globals_triangle step" where
  "InitD3D12 e hwnd = exec (InitD3D12_window_steps e hwnd @ InitD3D12_triangle_steps e)"

subsection \<open>WinMain\<close>

text \<open>
  \<open>WindowProc\<close>: \<^verbatim>\<open>if (uMsg == WM_DESTROY) { PostQuitMessage(0); return 0; }
  return DefWindowProc(hwnd, uMsg, wParam, lParam);\<close>
\<close>

definition WindowProc :: "env \<Rightarrow> msg \<Rightarrow> 'g world \<Rightarrow> 'g world" where
  "WindowProc e uMsg w =
     (if uMsg = WM_DESTROY then called e (Win32 (PostQuitMessage 0)) w
      else called e (Win32 (DefWindowProc uMsg)) w)"

text \<open>
  \<^verbatim>\<open>TranslateMessage(&msg); DispatchMessage(&msg);\<close> The window procedure runs inside
  \<open>DispatchMessage\<close> for a message sent to the window; \<open>WM_QUIT\<close> belongs to no window.
\<close>

definition dispatch :: "env \<Rightarrow> msg \<Rightarrow> 'g world \<Rightarrow> 'g world" where
  "dispatch e m w =
     (let w1 = called e (Win32 (DispatchMessage m)) (called e (Win32 (TranslateMessage m)) w)
      in if m = WM_QUIT then w1 else WindowProc e m w1)"

text \<open>
  The inner loop
  \<^verbatim>\<open>while (PeekMessage(&msg, nullptr, 0, 0, PM_REMOVE)) {
       TranslateMessage(&msg); DispatchMessage(&msg);
       if (msg.message == WM_QUIT) goto cleanup; }\<close>
  over the messages that are pending when it starts; once they are retrieved,
  \<open>PeekMessage\<close> hands out the \<open>WM_QUIT\<close> that \<open>PostQuitMessage\<close> asked for, or nothing.
  The result is \<open>True\<close> when the loop leaves through \<^verbatim>\<open>goto cleanup\<close>.
\<close>

fun pump :: "env \<Rightarrow> msg list \<Rightarrow> 'g world \<Rightarrow> bool \<times> 'g world" where
  "pump e [] w =
     (let w1 = called e (Win32 PeekMessage) w in
      if quit_posted (platform w1)
      then (True, dispatch e WM_QUIT (w1\<lparr>platform := (platform w1)\<lparr>quit_posted := False\<rparr>\<rparr>))
      else (False, w1))"
| "pump e (m # ms) w =
     (let w1 = dispatch e m (called e (Win32 PeekMessage) w) in
      if m = WM_QUIT then (True, w1) else pump e ms w1)"

text \<open>
  How a run of the program ends: \<^verbatim>\<open>return 0\<close> after \<^verbatim>\<open>cleanup\<close>, an exception that leaves
  \<open>WinMain\<close> (nothing catches it), a wait that never returns, or, when the scripted
  iterations are used up, still in the main loop.
\<close>

datatype exit = Returned int | Terminated error | Waiting | Looping

text \<open>
  \<^verbatim>\<open>while (true) { [inner loop]  Render(); }
  cleanup: CloseHandle(g_fenceEvent); return 0;\<close>
  One element of the script for each iteration: the messages pending at its start and
  the platform's answers during it. The two programs differ in \<open>Render\<close> only.
\<close>

fun MainLoop :: "(env \<Rightarrow> ('a globals_scheme) step) \<Rightarrow> (msg list \<times> env) list \<Rightarrow>
    ('a globals_scheme) world \<Rightarrow> exit \<times> ('a globals_scheme) world" where
  "MainLoop render [] w = (Looping, w)"
| "MainLoop render ((ms, e) # its) w =
     (case pump e ms w of
        (True, w1) \<Rightarrow> (Returned 0, called e (Win32 (CloseHandle (g_fenceEvent (globals w1)))) w1)
      | (False, w1) \<Rightarrow>
          (case render e w1 of
             (Normal, w2) \<Rightarrow> MainLoop render its w2
           | (Raised err, w2) \<Rightarrow> (Terminated err, w2)
           | (Blocked, w2) \<Rightarrow> (Waiting, w2)))"

text \<open>The statically initialised globals, and the platform before the program has run.\<close>

definition globals0 :: globals where
  "globals0 =
     \<lparr>g_device = 0, g_swapChain = 0, g_commandQueue = 0, g_commandAllocator = 0,
      g_commandList = 0, g_rtvHeap = 0, g_fence = 0, g_fenceValue = 0, g_fenceEvent = 0,
      g_renderTargets = (\<lambda>i. 0), g_frameIndex = 0\<rparr>"

definition globals_triangle0 :: globals_triangle where
  "globals_triangle0 =
     \<lparr>g_device = 0, g_swapChain = 0, g_commandQueue = 0, g_commandAllocator = 0,
      g_commandList = 0, g_rtvHeap = 0, g_fence = 0, g_fenceValue = 0, g_fenceEvent = 0,
      g_renderTargets = (\<lambda>i. 0), g_frameIndex = 0,
      g_rootSig = 0, g_pipelineState = 0, g_vertexBuffer = 0,
      g_vbView = \<lparr>BufferLocation = 0, StrideInBytes = 0, SizeInElements = 0\<rparr>\<rparr>"

definition platform0 :: platform where
  "platform0 =
     \<lparr>fence_completed = 0, fence_signaled = 0, current_back_buffer = 0, quit_posted = False\<rparr>"

definition world0 :: "'g \<Rightarrow> 'g world" where
  "world0 g = \<lparr>globals = g, platform = platform0, trace = []\<rparr>"

text \<open>
  The statements of \<open>WinMain\<close> before the main loop. \<open>hwnd\<close> is what \<open>CreateWindowEx\<close>
  returned; the result of \<open>RegisterClass\<close> is dropped. \<^verbatim>\<open>dx12window.cpp\<close> (lines 141 to 156)
  has no \<open>UpdateWindow\<close>.
\<close>

definition hwnd_of :: "env \<Rightarrow> handle" where
  "hwnd_of e = created e (Win32 (CreateWindowEx 800 600))"

definition create_window_steps :: "env \<Rightarrow> (('a globals_scheme) step) list" where
  "create_window_steps e =
     [call e (\<lambda>g. Win32 RegisterClass),
      call e (\<lambda>g. Win32 (CreateWindowEx 800 600)),
      call e (\<lambda>g. Win32 (ShowWindow (hwnd_of e))),
      call e (\<lambda>g. Win32 (UpdateWindow (hwnd_of e)))]"

definition startup_steps :: "env \<Rightarrow> (globals_triangle step) list" where
  "startup_steps e = create_window_steps e @ [InitD3D12 e (hwnd_of e)]"

definition create_window_steps_window :: "env \<Rightarrow> (('a globals_scheme) step) list" where
  "create_window_steps_window e =
     [call e (\<lambda>g. Win32 RegisterClass),
      call e (\<lambda>g. Win32 (CreateWindowEx 800 600)),
      call e (\<lambda>g. Win32 (ShowWindow (hwnd_of e)))]"

definition startup_window_steps :: "env \<Rightarrow> (globals step) list" where
  "startup_window_steps e = create_window_steps_window e @ [InitD3D12_window e (hwnd_of e)]"

text \<open>
  The start of \<open>WinMain\<close> followed by the main loop: an exception or a wait that never
  returns in the first ends the run there.
\<close>

definition run :: "'g step \<Rightarrow> ('g world \<Rightarrow> exit \<times> 'g world) \<Rightarrow> 'g world \<Rightarrow> exit \<times> 'g world" where
  "run first rest w =
     (case first w of
        (Normal, w1) \<Rightarrow> rest w1
      | (Raised err, w1) \<Rightarrow> (Terminated err, w1)
      | (Blocked, w1) \<Rightarrow> (Waiting, w1))"

text \<open>\<open>WinMain\<close> of \<^verbatim>\<open>main.cpp\<close> (lines 344 to 379) and of \<^verbatim>\<open>dx12window.cpp\<close> (lines 139 to 174).\<close>

definition WinMain :: "env \<Rightarrow> (msg list \<times> env) list \<Rightarrow> exit \<times> globals_triangle world" where
  "WinMain boot its =
     run (exec (startup_steps boot)) (MainLoop Render its) (world0 globals_triangle0)"

definition WinMain_window :: "env \<Rightarrow> (msg list \<times> env) list \<Rightarrow> exit \<times> globals world" where
  "WinMain_window boot its =
     run (exec (startup_window_steps boot)) (MainLoop Render_window its) (world0 globals0)"

section \<open>The properties, as the specification words them\<close>

text \<open>
  The per-frame protocol of section 4.H, steps 1 to 9, as the sequence of calls it
  prescribes for a frame that starts with globals \<open>g\<close>. \<open>waits\<close> says whether step 8 has to
  wait. The RTV handle is \<open>heapStart + frameIndex * rtvStride\<close> in exact arithmetic, cut to
  the width of a pointer.
\<close>

definition frame_protocol :: "env \<Rightarrow> globals_triangle \<Rightarrow> bool \<Rightarrow> api_call list" where
  "frame_protocol e g waits =
     [Object CommandAllocator_Reset, Cmd (Reset (g_commandAllocator g) (g_pipelineState g))] @
     [Cmd (RSSetViewports
        [\<lparr>TopLeftX = 0, TopLeftY = 0, Width = 800, Height = 600, MinDepth = 0, MaxDepth = 1\<rparr>]),
      Cmd (RSSetScissorRects [\<lparr>left = 0, top = 0, right = 800, bottom = 600\<rparr>])] @
     [Device GetDescriptorHandleIncrementSize, Object GetCPUDescriptorHandleForHeapStart,
      Cmd (OMSetRenderTargets
        [of_nat (unat (heap_start e) + unat (g_frameIndex g) * unat (rtv_increment e))])] @
     [Cmd (ClearRenderTargetView
        (of_nat (unat (heap_start e) + unat (g_frameIndex g) * unat (rtv_increment e)))
        [0.2, 0.4, 0.6, 1.0])] @
     [Cmd (IASetPrimitiveTopology D3D_PRIMITIVE_TOPOLOGY_TRIANGLELIST),
      Cmd (IASetVertexBuffers 0 [g_vbView g]), Cmd (DrawInstanced 3 1 0 0)] @
     [Cmd Close, Object (ExecuteCommandLists [g_commandList g])] @
     [Object (Present 1 0)] @
     [Object (Signal (g_fence g) (g_fenceValue g)), Object GetCompletedValue] @
     (if waits then [Object (SetEventOnCompletion (g_fenceValue g) (g_fenceEvent g)),
                     Win32 (WaitForSingleObject (g_fenceEvent g) INFINITE)] else []) @
     [Object GetCurrentBackBufferIndex]"

text \<open>
  The state of the back buffer along a trace, starting from \<open>PRESENT\<close>: a barrier moves
  it, a clear or a draw needs \<open>RENDER_TARGET\<close>, \<open>Present\<close> needs \<open>PRESENT\<close>. \<open>None\<close> once a
  call found the buffer in the wrong state.
\<close>

definition back_buffer_after ::
    "D3D12_RESOURCE_STATES option \<Rightarrow> api_call \<Rightarrow> D3D12_RESOURCE_STATES option" where
  "back_buffer_after st c =
     (case c of
        Cmd (ResourceBarrier a b) \<Rightarrow> (if st = Some a then Some b else None)
      | Cmd (ClearRenderTargetView h rgba) \<Rightarrow>
          (if st = Some D3D12_RESOURCE_STATE_RENDER_TARGET then st else None)
      | Cmd (DrawInstanced n i v0 i0) \<Rightarrow>
          (if st = Some D3D12_RESOURCE_STATE_RENDER_TARGET then st else None)
      | Object (Present s f) \<Rightarrow> (if st = Some D3D12_RESOURCE_STATE_PRESENT then st else None)
      | _ \<Rightarrow> st)"

definition barriers_in_place :: "api_call list \<Rightarrow> bool" where
  "barriers_in_place tr = (foldl back_buffer_after (Some D3D12_RESOURCE_STATE_PRESENT) tr \<noteq> None)"

text \<open>How many calls of a trace are of a given kind.\<close>

primrec count_calls :: "(api_call \<Rightarrow> bool) \<Rightarrow> api_call list \<Rightarrow> nat" where
  "count_calls P [] = 0"
| "count_calls P (c # cs) = (if P c then Suc (count_calls P cs) else count_calls P cs)"

definition is_ResourceBarrier :: "api_call \<Rightarrow> bool" where
  "is_ResourceBarrier c = (case c of Cmd (ResourceBarrier a b) \<Rightarrow> True | _ \<Rightarrow> False)"

text \<open>The fence invariant of section 3.\<close>

definition fence_inv :: "('a globals_scheme) world \<Rightarrow> bool" where
  "fence_inv w =
     (fence_completed (platform w) \<le> fence_signaled (platform w) \<and>
      fence_signaled (platform w) \<le> g_fenceValue (globals w))"

text \<open>
  The fence and its counter between frames, \<open>n\<close> frames after initialisation: the counter
  is \<open>n + 1\<close> and the fence was signalled with, and has completed, \<open>n\<close>, as 64-bit values.
\<close>

definition fence_after :: "nat \<Rightarrow> ('a globals_scheme) world \<Rightarrow> bool" where
  "fence_after n w =
     (g_fenceValue (globals w) = of_nat (n + 1) \<and>
      fence_signaled (platform w) = of_nat n \<and>
      fence_completed (platform w) = of_nat n)"

text \<open>The worlds between the statements of a function, up to where it raises or blocks.\<close>

fun states :: "'g step list \<Rightarrow> 'g world \<Rightarrow> 'g world list" where
  "states [] w = [w]"
| "states (s # ss) w = w # (case s w of (Normal, w') \<Rightarrow> states ss w' | (r, w') \<Rightarrow> [w'])"

text \<open>The statements of the start of \<open>WinMain\<close>, those of \<open>InitD3D12\<close> included.\<close>

definition startup_statements :: "env \<Rightarrow> (globals_triangle step) list" where
  "startup_statements e =
     create_window_steps e @ InitD3D12_window_steps e (hwnd_of e) @ InitD3D12_triangle_steps e"

definition startup_window_statements :: "env \<Rightarrow> (globals step) list" where
  "startup_window_statements e =
     create_window_steps_window e @ InitD3D12_window_steps e (hwnd_of e)"

text \<open>
  \<open>Reset\<close> calls on the command list since the last \<open>Close\<close>, along a trace; \<open>None\<close> once a
  \<open>Close\<close> came after a number of them other than one. The second counter also counts the
  creation of the list, which leaves it open, as the specification notes in section 4.D.
\<close>

definition resets_since_close :: "nat option \<Rightarrow> api_call \<Rightarrow> nat option" where
  "resets_since_close n c =
     (case c of
        Cmd (Reset a p) \<Rightarrow> map_option Suc n
      | Cmd Close \<Rightarrow> (if n = Some 1 then Some 0 else None)
      | _ \<Rightarrow> n)"

definition close_follows_one_reset :: "api_call list \<Rightarrow> bool" where
  "close_follows_one_reset tr = (foldl resets_since_close (Some 0) tr \<noteq> None)"

definition opens_since_close :: "nat option \<Rightarrow> api_call \<Rightarrow> nat option" where
  "opens_since_close n c =
     (case c of
        Cmd (Reset a p) \<Rightarrow> map_option Suc n
      | Device (CreateCommandList a p) \<Rightarrow> map_option Suc n
      | Cmd Close \<Rightarrow> (if n = Some 1 then Some 0 else None)
      | _ \<Rightarrow> n)"

definition close_follows_one_open :: "api_call list \<Rightarrow> bool" where
  "close_follows_one_open tr = (foldl opens_since_close (Some 0) tr \<noteq> None)"

definition is_CreateCommandList :: "api_call \<Rightarrow> bool" where
  "is_CreateCommandList c = (case c of Device (CreateCommandList a p) \<Rightarrow> True | _ \<Rightarrow> False)"

text \<open>
  A host-init failure: the run ends with an error and \<open>InitD3D12\<close>, whose first call
  creates the DXGI factory, was never entered.
\<close>

definition host_init_failure :: "exit \<times> 'g world \<Rightarrow> bool" where
  "host_init_failure r =
     ((case fst r of Terminated err \<Rightarrow> True | _ \<Rightarrow> False) \<and>
      Device CreateDXGIFactory1 \<notin> set (trace (snd r)))"

text \<open>A request for a swap chain on a window other than \<open>h\<close>.\<close>

definition swap_chain_for_other :: "handle \<Rightarrow> api_call \<Rightarrow> bool" where
  "swap_chain_for_other h c =
     (case c of Device (CreateSwapChainForHwnd q h' n) \<Rightarrow> h' \<noteq> h | _ \<Rightarrow> False)"

definition is_Map :: "api_call \<Rightarrow> bool" where
  "is_Map c = (case c of Object (Map_Resource sub rng) \<Rightarrow> True | _ \<Rightarrow> False)"

definition is_CloseHandle :: "api_call \<Rightarrow> bool" where
  "is_CloseHandle c = (case c of Win32 (CloseHandle h) \<Rightarrow> True | _ \<Rightarrow> False)"

text \<open>A run has terminated when \<open>WinMain\<close> returned or an exception left it.\<close>

definition terminated :: "exit \<Rightarrow> bool" where
  "terminated x = (case x of Returned n \<Rightarrow> True | Terminated err \<Rightarrow> True | _ \<Rightarrow> False)"

text \<open>
  Invariant 1 of section 3 with the range of section 4.H: the frame index is the swap
  chain's current back-buffer index, and it is 0 or 1.
\<close>

definition frame_index_inv :: "('a globals_scheme) world \<Rightarrow> bool" where
  "frame_index_inv w =
     (g_frameIndex (globals w) = current_back_buffer (platform w) \<and>
      g_frameIndex (globals w) < 2)"

text \<open>
  The RTV handle computed for frame index \<open>i\<close> is the address of slot \<open>i\<close> of a heap of two
  descriptors: \<open>i\<close> is below 2 and the offset is \<open>i\<close> strides in pointer arithmetic.
\<close>

definition addresses_slot :: "env \<Rightarrow> UINT \<Rightarrow> bool" where
  "addresses_slot e i =
     (unat i < 2 \<and> rtvHandle e i = heap_start e + of_nat (unat i) * ucast (rtv_increment e))"

subsection \<open>Concrete platforms\<close>

text \<open>
  A platform on which every call succeeds and the GPU is still busy at the poll; one on
  which it is done by then; one on which \<open>Present\<close> fails with
  \<open>DXGI_ERROR_DEVICE_REMOVED\<close>; and one on which no window is created and the swap chain
  is refused with \<open>DXGI_ERROR_INVALID_CALL\<close>.
\<close>

definition env_ok :: env where
  "env_ok =
     \<lparr>hr = (\<lambda>c. 0), created = (\<lambda>c. 1), rtv_increment = 32, heap_start = 4096,
      gpu_address = 65536, gpu_done_at_poll = False, event_fires = True, error_blob = False\<rparr>"

definition env_fast :: env where
  "env_fast = env_ok\<lparr>gpu_done_at_poll := True\<rparr>"

definition env_present_fails :: env where
  "env_present_fails = env_ok\<lparr>hr := (\<lambda>c. if c = Object (Present 1 0) then - 2005270523 else 0)\<rparr>"

definition env_no_window :: env where
  "env_no_window =
     env_ok\<lparr>hr := (\<lambda>c. if c = Device (CreateSwapChainForHwnd 1 0 2) then - 2005270527 else 0),
            created := (\<lambda>c. if c = Win32 (CreateWindowEx 800 600) then 0 else 1)\<rparr>"

text \<open>The world of \<^verbatim>\<open>main.cpp\<close> once \<open>InitD3D12\<close> has run on \<open>env_ok\<close>, its trace left out.\<close>

definition world_ready :: "globals_triangle world" where
  "world_ready =
     \<lparr>globals =
        \<lparr>g_device = 1, g_swapChain = 1, g_commandQueue = 1, g_commandAllocator = 1,
         g_commandList = 1, g_rtvHeap = 1, g_fence = 1, g_fenceValue = 1, g_fenceEvent = 1,
         g_renderTargets = (\<lambda>i. 1), g_frameIndex = 0,
         g_rootSig = 1, g_pipelineState = 1, g_vertexBuffer = 1,
         g_vbView = \<lparr>BufferLocation = 65536, StrideInBytes = 28, SizeInElements = 3\<rparr>\<rparr>,
      platform = platform0, trace = []\<rparr>"

definition world_ready_window :: "globals world" where
  "world_ready_window =
     \<lparr>globals =
        \<lparr>g_device = 1, g_swapChain = 1, g_commandQueue = 1, g_commandAllocator = 1,
         g_commandList = 1, g_rtvHeap = 1, g_fence = 1, g_fenceValue = 1, g_fenceEvent = 1,
         g_renderTargets = (\<lambda>i. 1), g_frameIndex = 0\<rparr>,
      platform = platform0, trace = []\<rparr>"

section \<open>Running the statements\<close>

text \<open>
  One equation for each kind of statement at the head of a list, so that a function of the
  source is run by rewriting, one statement at a time and one case for each call that can
  fail.
\<close>

lemma world_called [simp]:
  "globals (called e c w) = globals w"
  "trace (called e c w) = trace w @ [c]"
  "platform (called e c w) = effect e c (platform w)"
  by (simp_all add: called_def logged_def)

lemma world_logged [simp]:
  "globals (logged c w) = globals w"
  "trace (logged c w) = trace w @ [c]"
  "platform (logged c w) = platform w"
  by (simp_all add: logged_def)

lemma exec_Cons:
  "exec (s # ss) w = (case s w of (Normal, w') \<Rightarrow> exec ss w' | r \<Rightarrow> r)"
  by simp

lemma exec_append:
  "exec (xs @ ys) w = (case exec xs w of (Normal, w') \<Rightarrow> exec ys w' | r \<Rightarrow> r)"
  by (induction xs arbitrary: w) (auto split: prod.splits status.splits)

lemma exec_ThrowIfFailed [simp]:
  "exec (ThrowIfFailed e f # ss) w =
     (if FAILED (hr e (f (globals w)))
      then (Raised (runtime_error ''HRESULT failed''), logged (f (globals w)) w)
      else exec ss (called e (f (globals w)) w))"
  by (simp add: ThrowIfFailed_def Let_def)

lemma exec_call [simp]: "exec (call e f # ss) w = exec ss (called e (f (globals w)) w)"
  by (simp add: call_def)

lemma exec_assign [simp]:
  "exec (assign f # ss) w = exec ss (w\<lparr>globals := f (globals w) (platform w)\<rparr>)"
  by (simp add: assign_def)

lemma exec_throw_if [simp]:
  "exec (throw_if cond msg # ss) w =
     (if cond (globals w) then (Raised (runtime_error msg), w) else exec ss w)"
  by (simp add: throw_if_def)

lemma exec_wait_for_fence [simp]:
  "exec (wait_for_fence e # ss) w =
     (let w1 = called e (Object GetCompletedValue) w;
          set_event = Object (SetEventOnCompletion (g_fenceValue (globals w)) (g_fenceEvent (globals w)));
          wait = Win32 (WaitForSingleObject (g_fenceEvent (globals w)) INFINITE)
      in if fence_completed (platform w1) < g_fenceValue (globals w) then
           if FAILED (hr e set_event)
           then (Raised (runtime_error ''HRESULT failed''), logged set_event w1)
           else if event_fires e then exec ss (called e wait (called e set_event w1))
           else (Blocked, logged wait (called e set_event w1))
         else exec ss w1)"
  by (simp add: wait_for_fence_def wait_for_event_def ThrowIfFailed_def Let_def)

lemma exec_serialize_root_signature [simp]:
  "exec (serialize_root_signature e # ss) w =
     (if FAILED (hr e (Device D3D12SerializeRootSignature))
      then (Raised (runtime_error ''Failed to serialize root signature''),
            logged (Device D3D12SerializeRootSignature) w)
      else exec ss (called e (Device D3D12SerializeRootSignature) w))"
  by (simp add: serialize_root_signature_def)

lemma exec_CompileShader [simp]:
  "exec (CompileShader e entry target # ss) w =
     (if FAILED (hr e (Device (D3DCompile entry target))) then
        (Raised (runtime_error ''Shader compilation failed''),
         (if error_blob e then logged (Win32 OutputDebugStringA) else id)
           (logged (Device (D3DCompile entry target)) w))
      else exec ss (called e (Device (D3DCompile entry target)) w))"
  by (simp add: CompileShader_def)

lemma effect_simps [simp]:
  "effect e (Cmd l) p = p"
  "effect e (Device d) p =
     (case d of
        CreateFence v \<Rightarrow> p\<lparr>fence_completed := v, fence_signaled := v\<rparr>
      | CreateSwapChainForHwnd q h n \<Rightarrow> p\<lparr>current_back_buffer := 0\<rparr>
      | _ \<Rightarrow> p)"
  "effect e (Object ob) p =
     (case ob of
        Signal f v \<Rightarrow> p\<lparr>fence_signaled := v\<rparr>
      | GetCompletedValue \<Rightarrow>
          (if gpu_done_at_poll e then p\<lparr>fence_completed := fence_signaled p\<rparr> else p)
      | Present s f \<Rightarrow> p\<lparr>current_back_buffer := (current_back_buffer p + 1) mod 2\<rparr>
      | _ \<Rightarrow> p)"
  "effect e (Win32 x) p =
     (case x of
        WaitForSingleObject h t \<Rightarrow> p\<lparr>fence_completed := fence_signaled p\<rparr>
      | PostQuitMessage n \<Rightarrow> p\<lparr>quit_posted := True\<rparr>
      | _ \<Rightarrow> p)"
  by (simp_all add: effect_def split: device_call.splits object_call.splits win32_call.splits)

lemma exec_wait_for_event [simp]:
  "exec (wait_for_event e f # ss) w =
     (if event_fires e then exec ss (called e (f (globals w)) w)
      else (Blocked, logged (f (globals w)) w))"
  by (simp add: wait_for_event_def Let_def)


declare exec.simps(2) [simp del]
declare create_rtvs.simps [simp del]


subsection \<open>What a frame changes\<close>

lemma count_calls_append [simp]:
  "count_calls P (xs @ ys) = count_calls P xs + count_calls P ys"
  by (induction xs) auto

lemma word_less_2: "(i :: 32 word) < 2 \<Longrightarrow> i = 0 \<or> i = 1"
proof -
  assume "i < 2"
  then have "unat i < 2" by (simp add: word_less_nat_alt)
  then have "unat i = 0 \<or> unat i = unat (1 :: 32 word)" by auto
  then show ?thesis by (simp only: unat_eq_0 word_unat_eq_iff)
qed

lemma rtvHandle_small:
  "i < 2 \<Longrightarrow> rtvHandle e i = of_nat (unat (heap_start e) + unat i * unat (rtv_increment e))"
  using word_less_2 [of i] by (auto simp: rtvHandle_def)

lemma Render_globals:
  "Render e w = (Normal, w') \<Longrightarrow>
     globals w' = (globals w)\<lparr>g_fenceValue := g_fenceValue (globals w) + 1,
                             g_frameIndex := current_back_buffer (platform w')\<rparr>"
  by (auto simp add: Render_def Render_steps_def Let_def split: if_split_asm)

lemma Render_window_globals:
  "Render_window e w = (Normal, w') \<Longrightarrow>
     globals w' = (globals w)\<lparr>g_fenceValue := g_fenceValue (globals w) + 1,
                             g_frameIndex := current_back_buffer (platform w')\<rparr>"
  by (auto simp add: Render_window_def Render_window_steps_def Let_def split: if_split_asm)

subsection \<open>Initialisation, with its loop unrolled\<close>

lemma exec_exec [simp]: "exec (exec xs # ss) w = exec (xs @ ss) w"
  by (simp add: exec_Cons exec_append)

lemma create_rtvs_unrolled:
  "create_rtvs e 0 h =
     exec [ThrowIfFailed e (\<lambda>g. Object (GetBuffer 0)),
           assign (\<lambda>g p. g\<lparr>g_renderTargets := (g_renderTargets g)(0 := created e (Object (GetBuffer 0)))\<rparr>),
           call e (\<lambda>g. Device (CreateRenderTargetView (g_renderTargets g 0) h)),
           ThrowIfFailed e (\<lambda>g. Object (GetBuffer 1)),
           assign (\<lambda>g p. g\<lparr>g_renderTargets := (g_renderTargets g)(1 := created e (Object (GetBuffer 1)))\<rparr>),
           call e (\<lambda>g. Device (CreateRenderTargetView (g_renderTargets g 1) (h + ucast (rtv_increment e))))]"
proof
  fix w :: "'a globals_scheme world"
  have two: "create_rtvs e 2 h' w' = (Normal, w')" for h' and w' :: "'a globals_scheme world"
    by (simp add: create_rtvs.simps)
  show "create_rtvs e 0 h w = exec [ThrowIfFailed e (\<lambda>g. Object (GetBuffer 0)),
           assign (\<lambda>g p. g\<lparr>g_renderTargets := (g_renderTargets g)(0 := created e (Object (GetBuffer 0)))\<rparr>),
           call e (\<lambda>g. Device (CreateRenderTargetView (g_renderTargets g 0) h)),
           ThrowIfFailed e (\<lambda>g. Object (GetBuffer 1)),
           assign (\<lambda>g p. g\<lparr>g_renderTargets := (g_renderTargets g)(1 := created e (Object (GetBuffer 1)))\<rparr>),
           call e (\<lambda>g. Device (CreateRenderTargetView (g_renderTargets g 1) (h + ucast (rtv_increment e))))] w"
    by (simp add: create_rtvs.simps [of e 0] create_rtvs.simps [of e "Suc 0"] two numeral_2_eq_2 [symmetric])
qed

lemmas startup_defs = startup_steps_def startup_window_steps_def create_window_steps_def
  create_window_steps_window_def InitD3D12_def InitD3D12_window_def
  InitD3D12_window_steps_def InitD3D12_triangle_steps_def create_rtvs_unrolled

subsection \<open>Calls of one kind along a run\<close>

lemma is_CloseHandle_simps [simp]:
  "is_CloseHandle (Win32 x) = (case x of CloseHandle h \<Rightarrow> True | _ \<Rightarrow> False)"
  "is_CloseHandle (Device d) = False"
  "is_CloseHandle (Object ob) = False"
  "is_CloseHandle (Cmd l) = False"
  by (simp_all add: is_CloseHandle_def)

lemma is_Map_simps [simp]:
  "is_Map (Object ob) = (case ob of Map_Resource sub rng \<Rightarrow> True | _ \<Rightarrow> False)"
  "is_Map (Device d) = False"
  "is_Map (Win32 x) = False"
  "is_Map (Cmd l) = False"
  by (simp_all add: is_Map_def)

lemma is_CreateCommandList_simps [simp]:
  "is_CreateCommandList (Device d) = (case d of CreateCommandList a p \<Rightarrow> True | _ \<Rightarrow> False)"
  "is_CreateCommandList (Object ob) = False"
  "is_CreateCommandList (Win32 x) = False"
  "is_CreateCommandList (Cmd l) = False"
  by (simp_all add: is_CreateCommandList_def)

lemma is_ResourceBarrier_simps [simp]:
  "is_ResourceBarrier (Cmd l) = (case l of ResourceBarrier a b \<Rightarrow> True | _ \<Rightarrow> False)"
  "is_ResourceBarrier (Object ob) = False"
  "is_ResourceBarrier (Win32 x) = False"
  "is_ResourceBarrier (Device d) = False"
  by (simp_all add: is_ResourceBarrier_def)

lemma pump_count:
  "(\<And>x. P (Win32 x) = False) \<Longrightarrow> count_calls P (trace (snd (pump e ms w))) = count_calls P (trace w)"
  by (induction ms arbitrary: w) (simp_all add: Let_def dispatch_def WindowProc_def)

lemma pump_closes:
  "count_calls is_CloseHandle (trace (snd (pump e ms w))) = count_calls is_CloseHandle (trace w)"
  by (induction ms arbitrary: w) (simp_all add: Let_def dispatch_def WindowProc_def)

lemma MainLoop_count:
  assumes "\<And>e w. count_calls P (trace (snd (render e w))) = count_calls P (trace w)"
    and "\<And>x. P (Win32 x) = False"
  shows "count_calls P (trace (snd (MainLoop render its w))) = count_calls P (trace w)"
proof (induction its arbitrary: w)
  case Nil
  show ?case by simp
next
  case (Cons it its)
  obtain ms e where it: "it = (ms, e)" by (cases it)
  obtain q w1 where p: "pump e ms w = (q, w1)" by (cases "pump e ms w")
  have c1: "count_calls P (trace w1) = count_calls P (trace w)"
    using pump_count [of P e ms w] assms(2) p by simp
  obtain st w2 where r: "render e w1 = (st, w2)" by (cases "render e w1")
  have c2: "count_calls P (trace w2) = count_calls P (trace w1)"
    using assms(1) [of e w1] r by simp
  show ?case
    using it p r c1 c2 Cons.IH [of w2] assms(2)
    by (cases q; cases st) simp_all
qed

lemma MainLoop_closes:
  assumes "\<And>e w. count_calls is_CloseHandle (trace (snd (render e w))) =
             count_calls is_CloseHandle (trace w)"
  shows "count_calls is_CloseHandle (trace (snd (MainLoop render its w))) =
           count_calls is_CloseHandle (trace w) +
           (if fst (MainLoop render its w) = Returned 0 then 1 else 0) \<and>
         (\<forall>n. fst (MainLoop render its w) = Returned n \<longrightarrow> n = 0)"
proof (induction its arbitrary: w)
  case Nil
  show ?case by simp
next
  case (Cons it its)
  obtain ms e where it: "it = (ms, e)" by (cases it)
  obtain q w1 where p: "pump e ms w = (q, w1)" by (cases "pump e ms w")
  have c1: "count_calls is_CloseHandle (trace w1) = count_calls is_CloseHandle (trace w)"
    using pump_closes [of e ms w] p by simp
  obtain st w2 where r: "render e w1 = (st, w2)" by (cases "render e w1")
  have c2: "count_calls is_CloseHandle (trace w2) = count_calls is_CloseHandle (trace w1)"
    using assms [of e w1] r by simp
  show ?case
    using it p r c1 c2 Cons.IH [of w2]
    by (cases q; cases st) simp_all
qed

lemma Render_closes:
  "count_calls is_CloseHandle (trace (snd (Render e w))) = count_calls is_CloseHandle (trace w)"
  by (simp add: Render_def Render_steps_def Let_def)

lemma Render_window_closes:
  "count_calls is_CloseHandle (trace (snd (Render_window e w))) =
     count_calls is_CloseHandle (trace w)"
  by (simp add: Render_window_def Render_window_steps_def Let_def)

lemma startup_closes:
  "count_calls is_CloseHandle (trace (snd (exec (startup_steps boot) w))) =
     count_calls is_CloseHandle (trace w)"
  by (simp add: startup_defs)

lemma startup_window_closes:
  "count_calls is_CloseHandle (trace (snd (exec (startup_window_steps boot) w))) =
     count_calls is_CloseHandle (trace w)"
  by (simp add: startup_defs)

lemma run_cases:
  "run first rest w =
     (if fst (first w) = Normal then rest (snd (first w))
      else (case fst (first w) of Raised err \<Rightarrow> Terminated err | _ \<Rightarrow> Waiting, snd (first w)))"
  by (simp add: run_def split: prod.splits status.splits)

subsection \<open>The trace only grows\<close>

lemma pump_extends: "prefix (trace w) (trace (snd (pump e ms w)))"
proof (induction ms arbitrary: w)
  case Nil
  show ?case by (simp add: Let_def dispatch_def WindowProc_def)
next
  case (Cons m ms)
  have "prefix (trace w) (trace (dispatch e m (called e (Win32 PeekMessage) w)))"
    by (simp add: dispatch_def WindowProc_def Let_def)
  then show ?case
    using Cons.IH [of "dispatch e m (called e (Win32 PeekMessage) w)"]
    by (auto simp add: Let_def intro: prefix_order.trans)
qed

lemma MainLoop_extends:
  assumes "\<And>e w. prefix (trace w) (trace (snd (render e w)))"
  shows "prefix (trace w) (trace (snd (MainLoop render its w)))"
proof (induction its arbitrary: w)
  case Nil
  show ?case by simp
next
  case (Cons it its)
  obtain ms e where it: "it = (ms, e)" by (cases it)
  obtain q w1 where p: "pump e ms w = (q, w1)" by (cases "pump e ms w")
  have c1: "prefix (trace w) (trace w1)"
    using pump_extends [of w e ms] p by simp
  obtain st w2 where r: "render e w1 = (st, w2)" by (cases "render e w1")
  have c2: "prefix (trace w1) (trace w2)"
    using assms [of w1 e] r by simp
  have c3: "prefix (trace w) (trace w2)"
    using c1 c2 by (rule prefix_order.trans)
  have c4: "prefix (trace w) (trace (snd (MainLoop render its w2)))"
    using c3 Cons.IH [of w2] by (rule prefix_order.trans)
  show ?case
    using it p r c1 c3 c4
    by (cases q; cases st) simp_all
qed

lemma Render_extends: "prefix (trace w) (trace (snd (Render e w)))"
  by (simp add: Render_def Render_steps_def Let_def)

lemma Render_window_extends: "prefix (trace w) (trace (snd (Render_window e w)))"
  by (simp add: Render_window_def Render_window_steps_def Let_def)

lemma take_prefix: "prefix xs ys \<Longrightarrow> n \<le> length xs \<Longrightarrow> take n ys = take n xs"
  by (auto simp add: prefix_def)

lemma startup_first_calls:
  "take 5 (trace (snd (exec (startup_steps boot) (world0 g)))) =
     [Win32 RegisterClass, Win32 (CreateWindowEx 800 600), Win32 (ShowWindow (hwnd_of boot)),
      Win32 (UpdateWindow (hwnd_of boot)), Device CreateDXGIFactory1]"
  "5 \<le> length (trace (snd (exec (startup_steps boot) (world0 g))))"
  by (simp_all add: startup_defs world0_def)

lemma startup_window_first_calls:
  "take 4 (trace (snd (exec (startup_window_steps boot) (world0 g)))) =
     [Win32 RegisterClass, Win32 (CreateWindowEx 800 600), Win32 (ShowWindow (hwnd_of boot)),
      Device CreateDXGIFactory1]"
  "4 \<le> length (trace (snd (exec (startup_window_steps boot) (world0 g))))"
  by (simp_all add: startup_defs world0_def)

lemma run_extends:
  assumes "\<And>w. prefix (trace w) (trace (snd (rest w)))"
  shows "prefix (trace (snd (first w))) (trace (snd (run first rest w)))"
  using assms by (simp add: run_cases)

subsection \<open>The vertex buffer\<close>

lemma Render_maps:
  "count_calls is_Map (trace (snd (Render e w))) = count_calls is_Map (trace w)"
  by (simp add: Render_def Render_steps_def Let_def)

lemma startup_vertex_buffer:
  "fst (exec (startup_steps boot) (world0 g)) = Normal \<Longrightarrow>
     g_vbView (globals (snd (exec (startup_steps boot) (world0 g)))) =
       \<lparr>BufferLocation = gpu_address boot, StrideInBytes = 28, SizeInElements = 3\<rparr>"
  "fst (exec (startup_steps boot) (world0 g)) = Normal \<Longrightarrow>
     suffix
       [Device (CreateCommittedResource D3D12_HEAP_TYPE_UPLOAD 84 D3D12_RESOURCE_STATE_GENERIC_READ),
        Object (Map_Resource 0 (Some (0, 0))), Win32 (memcpy vertices 84),
        Object (Unmap_Resource 0 None), Object GetGPUVirtualAddress]
       (trace (snd (exec (startup_steps boot) (world0 g))))"
  "fst (exec (startup_steps boot) (world0 g)) = Normal \<Longrightarrow>
     count_calls is_Map (trace (snd (exec (startup_steps boot) (world0 g)))) = 1"
  by (simp_all add: startup_defs world0_def vbSize_def vertices_def sizeof_Vertex_def
      sizeof_float_def suffix_def split: if_split_asm)

subsection \<open>Opening and closing the command list\<close>

lemma opens_since_close_simps [simp]:
  "opens_since_close n (Win32 x) = n"
  "opens_since_close n (Object ob) = n"
  "opens_since_close n (Device d) =
     (case d of CreateCommandList a p \<Rightarrow> map_option Suc n | _ \<Rightarrow> n)"
  "opens_since_close n (Cmd l) =
     (case l of Reset a p \<Rightarrow> map_option Suc n
      | Close \<Rightarrow> (if n = Some 1 then Some 0 else None) | _ \<Rightarrow> n)"
  by (simp_all add: opens_since_close_def split: device_call.splits list_call.splits)

lemma resets_since_close_simps [simp]:
  "resets_since_close n (Win32 x) = n"
  "resets_since_close n (Object ob) = n"
  "resets_since_close n (Device d) = n"
  "resets_since_close n (Cmd l) =
     (case l of Reset a p \<Rightarrow> map_option Suc n
      | Close \<Rightarrow> (if n = Some 1 then Some 0 else None) | _ \<Rightarrow> n)"
  by (simp_all add: resets_since_close_def split: list_call.splits)

lemma pump_foldl:
  "(\<And>n x. f n (Win32 x) = n) \<Longrightarrow> foldl f s (trace (snd (pump e ms w))) = foldl f s (trace w)"
  by (induction ms arbitrary: w) (simp_all add: Let_def dispatch_def WindowProc_def)

lemma Render_opens:
  "foldl opens_since_close (Some 0) (trace w) = Some 0 \<Longrightarrow>
     foldl opens_since_close (Some 0) (trace (snd (Render e w))) \<noteq> None \<and>
     (fst (Render e w) = Normal \<longrightarrow>
        foldl opens_since_close (Some 0) (trace (snd (Render e w))) = Some 0)"
  by (simp add: Render_def Render_steps_def Let_def)

lemma Render_window_opens:
  "foldl opens_since_close (Some 0) (trace w) = Some 0 \<Longrightarrow>
     foldl opens_since_close (Some 0) (trace (snd (Render_window e w))) \<noteq> None \<and>
     (fst (Render_window e w) = Normal \<longrightarrow>
        foldl opens_since_close (Some 0) (trace (snd (Render_window e w))) = Some 0)"
  by (simp add: Render_window_def Render_window_steps_def Let_def)

lemma MainLoop_opens:
  assumes "\<And>e w. foldl opens_since_close (Some 0) (trace w) = Some 0 \<Longrightarrow>
     foldl opens_since_close (Some 0) (trace (snd (render e w))) \<noteq> None \<and>
     (fst (render e w) = Normal \<longrightarrow>
        foldl opens_since_close (Some 0) (trace (snd (render e w))) = Some 0)"
  shows "foldl opens_since_close (Some 0) (trace w) = Some 0 \<Longrightarrow>
     foldl opens_since_close (Some 0) (trace (snd (MainLoop render its w))) \<noteq> None"
proof (induction its arbitrary: w)
  case Nil
  then show ?case by simp
next
  case (Cons it its)
  obtain ms e where it: "it = (ms, e)" by (cases it)
  obtain q w1 where p: "pump e ms w = (q, w1)" by (cases "pump e ms w")
  have c1: "foldl opens_since_close (Some 0) (trace w1) = Some 0"
    using pump_foldl [of opens_since_close "Some 0" e ms w] p Cons.prems by simp
  obtain st w2 where r: "render e w1 = (st, w2)" by (cases "render e w1")
  have c2: "foldl opens_since_close (Some 0) (trace w2) \<noteq> None"
    and c3: "st = Normal \<longrightarrow> foldl opens_since_close (Some 0) (trace w2) = Some 0"
    using assms [of w1 e] r c1 by simp_all
  show ?case
    using it p r c1 c2 c3 Cons.IH [of w2]
    by (cases q; cases st) simp_all
qed

lemma startup_opens:
  "foldl opens_since_close (Some 0) (trace (snd (exec (startup_steps boot) (world0 g)))) \<noteq> None \<and>
   (fst (exec (startup_steps boot) (world0 g)) = Normal \<longrightarrow>
      foldl opens_since_close (Some 0) (trace (snd (exec (startup_steps boot) (world0 g)))) = Some 0)"
  by (simp add: startup_defs world0_def)

lemma startup_window_opens:
  "foldl opens_since_close (Some 0)
     (trace (snd (exec (startup_window_steps boot) (world0 g)))) \<noteq> None \<and>
   (fst (exec (startup_window_steps boot) (world0 g)) = Normal \<longrightarrow>
      foldl opens_since_close (Some 0)
        (trace (snd (exec (startup_window_steps boot) (world0 g)))) = Some 0)"
  by (simp add: startup_defs world0_def)

lemma Render_creates:
  "count_calls is_CreateCommandList (trace (snd (Render e w))) =
     count_calls is_CreateCommandList (trace w)"
  by (simp add: Render_def Render_steps_def Let_def)

lemma Render_window_creates:
  "count_calls is_CreateCommandList (trace (snd (Render_window e w))) =
     count_calls is_CreateCommandList (trace w)"
  by (simp add: Render_window_def Render_window_steps_def Let_def)

lemma startup_creates:
  "count_calls is_CreateCommandList (trace (snd (exec (startup_steps boot) (world0 g)))) \<le> 1"
  by (simp add: startup_defs world0_def)

lemma startup_window_creates:
  "count_calls is_CreateCommandList
     (trace (snd (exec (startup_window_steps boot) (world0 g)))) \<le> 1"
  by (simp add: startup_defs world0_def)

subsection \<open>The frame index between frames\<close>

lemma pump_globals [simp]: "globals (snd (pump e ms w)) = globals w"
  by (induction ms arbitrary: w) (simp_all add: Let_def dispatch_def WindowProc_def)

lemma pump_platform [simp]:
  "current_back_buffer (platform (snd (pump e ms w))) = current_back_buffer (platform w)"
  "fence_completed (platform (snd (pump e ms w))) = fence_completed (platform w)"
  "fence_signaled (platform (snd (pump e ms w))) = fence_signaled (platform w)"
  by (induction ms arbitrary: w) (simp_all add: Let_def dispatch_def WindowProc_def)

lemma Render_fenceEvent:
  "g_fenceEvent (globals (snd (Render e w))) = g_fenceEvent (globals w)"
  by (simp add: Render_def Render_steps_def Let_def)

lemma Render_window_fenceEvent:
  "g_fenceEvent (globals (snd (Render_window e w))) = g_fenceEvent (globals w)"
  by (simp add: Render_window_def Render_window_steps_def Let_def)

lemma MainLoop_last_call:
  assumes "\<And>e w. g_fenceEvent (globals (snd (render e w))) = g_fenceEvent (globals w)"
  shows "fst (MainLoop render its w) = Returned 0 \<Longrightarrow>
     last (trace (snd (MainLoop render its w))) = Win32 (CloseHandle (g_fenceEvent (globals w))) \<and>
     g_fenceEvent (globals (snd (MainLoop render its w))) = g_fenceEvent (globals w)"
proof (induction its arbitrary: w)
  case Nil
  then show ?case by simp
next
  case (Cons it its)
  obtain ms e where it: "it = (ms, e)" by (cases it)
  obtain q w1 where p: "pump e ms w = (q, w1)" by (cases "pump e ms w")
  have g1: "globals w1 = globals w" using pump_globals [of e ms w] p by simp
  obtain st w2 where r: "render e w1 = (st, w2)" by (cases "render e w1")
  have g2: "g_fenceEvent (globals w2) = g_fenceEvent (globals w)"
    using assms [of e w1] r g1 by simp
  show ?case
    using it p r g1 g2 Cons.IH [of w2] Cons.prems
    by (cases q; cases st) simp_all
qed

lemma MainLoop_between_frames:
  assumes "J w"
    and "\<And>e ms w. J w \<Longrightarrow> J (snd (pump e ms w))"
    and "\<And>e w. J w \<Longrightarrow> fst (render e w) = Normal \<Longrightarrow> J (snd (render e w))"
    and "\<And>e c w. J w \<Longrightarrow> J (called e (Win32 c) w)"
    and "fst (MainLoop render its w) = Looping \<or> fst (MainLoop render its w) = Returned 0"
  shows "J (snd (MainLoop render its w))"
  using assms(1,5)
proof (induction its arbitrary: w)
  case Nil
  then show ?case by simp
next
  case (Cons it its)
  obtain ms e where it: "it = (ms, e)" by (cases it)
  obtain q w1 where p: "pump e ms w = (q, w1)" by (cases "pump e ms w")
  have c1: "J w1" using assms(2) [of w e ms] p Cons.prems(1) by simp
  obtain st w2 where r: "render e w1 = (st, w2)" by (cases "render e w1")
  have c2: "st = Normal \<Longrightarrow> J w2" using assms(3) [of w1 e] r c1 by simp
  show ?case
    using it p r c1 c2 Cons.IH [of w2] Cons.prems(2) assms(4) [of w1 e]
    by (cases q; cases st) simp_all
qed

lemma pump_frame_index: "frame_index_inv w \<Longrightarrow> frame_index_inv (snd (pump e ms w))"
  by (auto simp add: frame_index_inv_def)

lemma called_Win32_frame_index:
  "frame_index_inv w \<Longrightarrow> frame_index_inv (called e (Win32 c) w)"
  by (auto simp add: frame_index_inv_def split: win32_call.splits)

lemma flip_less_2: "(i + 1) mod 2 < (2 :: 32 word)"
  by (simp add: word_mod_less_divisor)

lemma Render_frame_index:
  "fst (Render e w) = Normal \<Longrightarrow> frame_index_inv (snd (Render e w))"
  by (simp add: Render_def Render_steps_def Let_def frame_index_inv_def flip_less_2
      split: if_split_asm)

lemma Render_window_frame_index:
  "fst (Render_window e w) = Normal \<Longrightarrow> frame_index_inv (snd (Render_window e w))"
  by (simp add: Render_window_def Render_window_steps_def Let_def frame_index_inv_def flip_less_2
      split: if_split_asm)

lemma startup_frame_index:
  "fst (exec (startup_steps boot) (world0 g)) = Normal \<Longrightarrow>
     frame_index_inv (snd (exec (startup_steps boot) (world0 g)))"
  by (simp add: startup_defs world0_def frame_index_inv_def split: if_split_asm)

lemma startup_window_frame_index:
  "fst (exec (startup_window_steps boot) (world0 g)) = Normal \<Longrightarrow>
     frame_index_inv (snd (exec (startup_window_steps boot) (world0 g)))"
  by (simp add: startup_defs world0_def frame_index_inv_def split: if_split_asm)

lemma frame_index_addresses_slot: "i < 2 \<Longrightarrow> addresses_slot e i"
  using word_less_2 [of i] by (auto simp add: addresses_slot_def rtvHandle_def)

lemma WinMain_frame_index:
  assumes "fst (WinMain boot its) = Looping \<or> fst (WinMain boot its) = Returned 0"
  shows "frame_index_inv (snd (WinMain boot its))"
proof -
  let ?w = "snd (exec (startup_steps boot) (world0 globals_triangle0))"
  have n: "fst (exec (startup_steps boot) (world0 globals_triangle0)) = Normal"
    using assms by (simp add: WinMain_def run_cases split: if_split_asm status.splits)
  have l: "fst (MainLoop Render its ?w) = Looping \<or> fst (MainLoop Render its ?w) = Returned 0"
    using assms n by (simp add: WinMain_def run_cases)
  have "frame_index_inv (snd (MainLoop Render its ?w))"
  proof (rule MainLoop_between_frames [where J = frame_index_inv and render = Render])
    show "frame_index_inv ?w" using n by (rule startup_frame_index)
    show "fst (MainLoop Render its ?w) = Looping \<or> fst (MainLoop Render its ?w) = Returned 0"
      by (rule l)
  qed (simp_all add: pump_frame_index Render_frame_index called_Win32_frame_index)
  then show ?thesis using n by (simp add: WinMain_def run_cases)
qed

lemma WinMain_window_frame_index:
  assumes "fst (WinMain_window boot its) = Looping \<or> fst (WinMain_window boot its) = Returned 0"
  shows "frame_index_inv (snd (WinMain_window boot its))"
proof -
  let ?w = "snd (exec (startup_window_steps boot) (world0 globals0))"
  have n: "fst (exec (startup_window_steps boot) (world0 globals0)) = Normal"
    using assms by (simp add: WinMain_window_def run_cases split: if_split_asm status.splits)
  have l: "fst (MainLoop Render_window its ?w) = Looping \<or>
      fst (MainLoop Render_window its ?w) = Returned 0"
    using assms n by (simp add: WinMain_window_def run_cases)
  have "frame_index_inv (snd (MainLoop Render_window its ?w))"
  proof (rule MainLoop_between_frames [where J = frame_index_inv and render = Render_window])
    show "frame_index_inv ?w" using n by (rule startup_window_frame_index)
    show "fst (MainLoop Render_window its ?w) = Looping \<or>
        fst (MainLoop Render_window its ?w) = Returned 0"
      by (rule l)
  qed (simp_all add: pump_frame_index Render_window_frame_index called_Win32_frame_index)
  then show ?thesis using n by (simp add: WinMain_window_def run_cases)
qed

subsection \<open>The fence\<close>

text \<open>The worlds between statements, for each kind of statement.\<close>

lemma states_ThrowIfFailed [simp]:
  "states (ThrowIfFailed e f # ss) w =
     w # (if FAILED (hr e (f (globals w))) then [logged (f (globals w)) w]
          else states ss (called e (f (globals w)) w))"
  by (simp add: ThrowIfFailed_def Let_def)

lemma states_call [simp]: "states (call e f # ss) w = w # states ss (called e (f (globals w)) w)"
  by (simp add: call_def)

lemma states_assign [simp]:
  "states (assign f # ss) w = w # states ss (w\<lparr>globals := f (globals w) (platform w)\<rparr>)"
  by (simp add: assign_def)

lemma states_wait_for_fence [simp]:
  "states (wait_for_fence e # ss) w =
     w # (let w1 = called e (Object GetCompletedValue) w;
          set_event = Object (SetEventOnCompletion (g_fenceValue (globals w)) (g_fenceEvent (globals w)));
          wait = Win32 (WaitForSingleObject (g_fenceEvent (globals w)) INFINITE)
      in if fence_completed (platform w1) < g_fenceValue (globals w) then
           if FAILED (hr e set_event) then [logged set_event w1]
           else if event_fires e then states ss (called e wait (called e set_event w1))
           else [logged wait (called e set_event w1)]
         else states ss w1)"
  by (simp add: wait_for_fence_def Let_def)

declare states.simps(2) [simp del]

lemma word_le_Suc: "(x :: 64 word) \<noteq> - 1 \<Longrightarrow> x \<le> x + 1"
  by (meson inc_less_eq_triv_imp nle_le)

lemma Render_points:
  assumes "fence_inv w" "g_fenceValue (globals w) \<noteq> - 1"
  shows "list_all fence_inv (states (Render_steps e) w)"
proof -
  have a: "fence_completed (platform w) \<le> fence_signaled (platform w)"
    and b: "fence_signaled (platform w) \<le> g_fenceValue (globals w)"
    and c: "fence_completed (platform w) \<le> g_fenceValue (globals w)"
    using assms(1) by (auto simp add: fence_inv_def)
  have d: "g_fenceValue (globals w) \<le> g_fenceValue (globals w) + 1"
    using assms(2) by (rule word_le_Suc)
  show ?thesis
    using a b c d by (simp add: Render_steps_def Let_def fence_inv_def)
qed

lemma Render_window_points:
  assumes "fence_inv w" "g_fenceValue (globals w) \<noteq> - 1"
  shows "list_all fence_inv (states (Render_window_steps e) w)"
proof -
  have a: "fence_completed (platform w) \<le> fence_signaled (platform w)"
    and b: "fence_signaled (platform w) \<le> g_fenceValue (globals w)"
    and c: "fence_completed (platform w) \<le> g_fenceValue (globals w)"
    using assms(1) by (auto simp add: fence_inv_def)
  have d: "g_fenceValue (globals w) \<le> g_fenceValue (globals w) + 1"
    using assms(2) by (rule word_le_Suc)
  show ?thesis
    using a b c d by (simp add: Render_window_steps_def Let_def fence_inv_def)
qed

lemma Render_fence:
  assumes "fence_inv w" "fst (Render e w) = Normal"
  shows "g_fenceValue (globals (snd (Render e w))) = g_fenceValue (globals w) + 1 \<and>
         fence_signaled (platform (snd (Render e w))) = g_fenceValue (globals w) \<and>
         fence_completed (platform (snd (Render e w))) = g_fenceValue (globals w)"
proof -
  have c: "fence_completed (platform w) \<le> g_fenceValue (globals w)"
    using assms(1) by (auto simp add: fence_inv_def)
  have "\<not> fence_completed (platform w) < g_fenceValue (globals w) \<Longrightarrow>
      fence_completed (platform w) = g_fenceValue (globals w)"
    using c by auto
  then show ?thesis
    using assms(2) by (simp add: Render_def Render_steps_def Let_def split: if_split_asm)
qed

lemma Render_window_fence:
  assumes "fence_inv w" "fst (Render_window e w) = Normal"
  shows "g_fenceValue (globals (snd (Render_window e w))) = g_fenceValue (globals w) + 1 \<and>
         fence_signaled (platform (snd (Render_window e w))) = g_fenceValue (globals w) \<and>
         fence_completed (platform (snd (Render_window e w))) = g_fenceValue (globals w)"
proof -
  have c: "fence_completed (platform w) \<le> g_fenceValue (globals w)"
    using assms(1) by (auto simp add: fence_inv_def)
  have "\<not> fence_completed (platform w) < g_fenceValue (globals w) \<Longrightarrow>
      fence_completed (platform w) = g_fenceValue (globals w)"
    using c by auto
  then show ?thesis
    using assms(2)
    by (simp add: Render_window_def Render_window_steps_def Let_def split: if_split_asm)
qed

lemma states_throw_if [simp]:
  "states (throw_if cond msg # ss) w = w # (if cond (globals w) then [w] else states ss w)"
  by (simp add: throw_if_def states.simps(2))

lemma states_serialize_root_signature [simp]:
  "states (serialize_root_signature e # ss) w =
     w # (if FAILED (hr e (Device D3D12SerializeRootSignature))
          then [logged (Device D3D12SerializeRootSignature) w]
          else states ss (called e (Device D3D12SerializeRootSignature) w))"
  by (simp add: serialize_root_signature_def states.simps(2))

lemma states_CompileShader [simp]:
  "states (CompileShader e entry target # ss) w =
     w # (if FAILED (hr e (Device (D3DCompile entry target))) then
            [(if error_blob e then logged (Win32 OutputDebugStringA) else id)
               (logged (Device (D3DCompile entry target)) w)]
          else states ss (called e (Device (D3DCompile entry target)) w))"
  by (simp add: CompileShader_def states.simps(2))

lemma states_exec:
  "states (exec xs # ss) w =
     w # (if fst (exec xs w) = Normal then states ss (snd (exec xs w)) else [snd (exec xs w)])"
  by (simp add: states.simps(2) split: prod.splits status.splits)

lemma startup_points:
  "list_all fence_inv (states (startup_statements boot) (world0 globals_triangle0))"
  by (simp add: startup_statements_def create_window_steps_def InitD3D12_window_steps_def
      InitD3D12_triangle_steps_def create_rtvs_unrolled states_exec world0_def platform0_def
      globals_triangle0_def fence_inv_def)

lemma startup_window_points:
  "list_all fence_inv (states (startup_window_statements boot) (world0 globals0))"
  by (simp add: startup_window_statements_def create_window_steps_window_def
      InitD3D12_window_steps_def create_rtvs_unrolled states_exec world0_def platform0_def
      globals0_def fence_inv_def)

lemma startup_fence:
  "fst (exec (startup_steps boot) (world0 g)) = Normal \<Longrightarrow>
     fence_after 0 (snd (exec (startup_steps boot) (world0 g)))"
  by (simp add: startup_defs world0_def platform0_def fence_after_def split: if_split_asm)

lemma startup_window_fence:
  "fst (exec (startup_window_steps boot) (world0 g)) = Normal \<Longrightarrow>
     fence_after 0 (snd (exec (startup_window_steps boot) (world0 g)))"
  by (simp add: startup_defs world0_def platform0_def fence_after_def split: if_split_asm)

lemma unat_of_nat_64: "n < 2 ^ 64 \<Longrightarrow> unat (of_nat n :: 64 word) = n"
  by (simp add: unat_of_nat)

lemma fence_after_inv:
  assumes "fence_after n w" "n + 1 < 2 ^ 64"
  shows "fence_inv w"
    and "unat (g_fenceValue (globals w)) = n + 1"
    and "unat (fence_completed (platform w)) = n"
proof -
  have a: "unat (of_nat n :: 64 word) = n" using assms(2) by (simp add: unat_of_nat_64)
  have b: "unat (of_nat (n + 1) :: 64 word) = n + 1"
    using assms(2) unat_of_nat_64 [of "n + 1"] by simp
  have "(of_nat n :: 64 word) \<le> of_nat (n + 1)"
    using a b by (simp only: word_le_nat_alt)
  then show "fence_inv w" using assms(1) by (simp add: fence_after_def fence_inv_def)
  show "unat (g_fenceValue (globals w)) = n + 1"
    using assms(1) b by (simp add: fence_after_def)
  show "unat (fence_completed (platform w)) = n"
    using assms(1) a by (simp add: fence_after_def)
qed

lemma pump_fence_after: "fence_after n w \<Longrightarrow> fence_after n (snd (pump e ms w))"
  by (simp add: fence_after_def)

lemma MainLoop_fence:
  assumes "\<And>e w. fence_inv w \<Longrightarrow> fst (render e w) = Normal \<Longrightarrow>
       g_fenceValue (globals (snd (render e w))) = g_fenceValue (globals w) + 1 \<and>
       fence_signaled (platform (snd (render e w))) = g_fenceValue (globals w) \<and>
       fence_completed (platform (snd (render e w))) = g_fenceValue (globals w)"
  shows "fence_after n w \<Longrightarrow> n + length its + 1 < 2 ^ 64 \<Longrightarrow>
     fst (MainLoop render its w) = Looping \<Longrightarrow>
     fence_after (n + length its) (snd (MainLoop render its w))"
proof (induction its arbitrary: w n)
  case Nil
  then show ?case by simp
next
  case (Cons it its)
  obtain ms e where it: "it = (ms, e)" by (cases it)
  obtain q w1 where p: "pump e ms w = (q, w1)" by (cases "pump e ms w")
  have k1: "fence_after n w1" using pump_fence_after [OF Cons.prems(1), of e ms] p by simp
  have nb: "n + 1 < 2 ^ 64" and nb': "Suc n + length its + 1 < 2 ^ 64"
    using Cons.prems(2) by simp_all
  have i1: "fence_inv w1" using k1 nb by (rule fence_after_inv(1))
  obtain st w2 where r: "render e w1 = (st, w2)" by (cases "render e w1")
  have q: "\<not> q" and st: "st = Normal" and l: "fst (MainLoop render its w2) = Looping"
    using Cons.prems(3) it p r by (cases q; cases st; simp)+
  have k2: "fence_after (Suc n) w2"
    using assms [of w1 e] i1 r st k1 by (simp add: fence_after_def)
  have "fence_after (Suc n + length its) (snd (MainLoop render its w2))"
    using k2 nb' l by (rule Cons.IH)
  then show ?case using it p r q st by simp
qed

lemma Render_env_ok:
  "fst (Render env_ok w) = Normal"
  "g_fenceValue (globals (snd (Render env_ok w))) = g_fenceValue (globals w) + 1"
  "fence_signaled (platform (snd (Render env_ok w))) = g_fenceValue (globals w)"
  "quit_posted (platform (snd (Render env_ok w))) = quit_posted (platform w)"
  by (simp_all add: Render_def Render_steps_def Let_def env_ok_def FAILED_def)

lemma frames_env_ok:
  "\<not> quit_posted (platform w) \<Longrightarrow>
     fst (MainLoop Render (replicate n ([], env_ok)) w) = Looping \<and>
     g_fenceValue (globals (snd (MainLoop Render (replicate n ([], env_ok)) w))) =
       g_fenceValue (globals w) + of_nat n \<and>
     (0 < n \<longrightarrow> fence_signaled (platform (snd (MainLoop Render (replicate n ([], env_ok)) w))) =
       g_fenceValue (globals w) + of_nat n - 1)"
proof (induction n arbitrary: w)
  case 0
  show ?case by simp
next
  case (Suc n)
  let ?w1 = "called env_ok (Win32 PeekMessage) w"
  let ?w2 = "snd (Render env_ok ?w1)"
  have q: "\<not> quit_posted (platform ?w2)"
    using Suc.prems by (simp add: Render_env_ok(4))
  have s: "MainLoop Render (replicate (Suc n) ([], env_ok)) w =
      MainLoop Render (replicate n ([], env_ok)) ?w2"
    using Suc.prems Render_env_ok(1) [of ?w1]
    by (auto simp add: Let_def split: prod.splits status.splits)
  show ?case
    unfolding s using Suc.IH [OF q] Render_env_ok(2,3) [of ?w1]
    by (cases n) simp_all
qed

lemma startup_env_ok:
  "fst (exec (startup_steps env_ok) (world0 globals_triangle0)) = Normal"
  "g_fenceValue (globals (snd (exec (startup_steps env_ok) (world0 globals_triangle0)))) = 1"
  "\<not> quit_posted (platform (snd (exec (startup_steps env_ok) (world0 globals_triangle0))))"
  by (simp_all add: startup_defs world0_def platform0_def globals_triangle0_def env_ok_def
      FAILED_def)

lemma startup_statements_exec:
  "exec (startup_statements boot) = exec (startup_steps boot)"
  "exec (startup_window_statements boot) = exec (startup_window_steps boot)"
  by (rule ext, simp add: startup_statements_def startup_window_statements_def
      startup_steps_def startup_window_steps_def InitD3D12_def InitD3D12_window_def exec_append
      exec_Cons split: prod.splits status.splits)+

lemma WinMain_fence:
  assumes "fst (WinMain boot its) = Looping" "length its + 1 < 2 ^ 64"
  shows "fence_after (length its) (snd (WinMain boot its))"
proof -
  let ?w = "snd (exec (startup_steps boot) (world0 globals_triangle0))"
  have n: "fst (exec (startup_steps boot) (world0 globals_triangle0)) = Normal"
    using assms(1) by (simp add: WinMain_def run_cases split: if_split_asm status.splits)
  have l: "fst (MainLoop Render its ?w) = Looping"
    using assms(1) n by (simp add: WinMain_def run_cases)
  have "fence_after (0 + length its) (snd (MainLoop Render its ?w))"
  proof (rule MainLoop_fence [where render = Render])
    show "fence_after 0 ?w" using n by (rule startup_fence)
    show "0 + length its + 1 < 2 ^ 64" using assms(2) by simp
    show "fst (MainLoop Render its ?w) = Looping" by (rule l)
  qed (rule Render_fence)
  then show ?thesis using n by (simp add: WinMain_def run_cases)
qed

lemma WinMain_window_fence:
  assumes "fst (WinMain_window boot its) = Looping" "length its + 1 < 2 ^ 64"
  shows "fence_after (length its) (snd (WinMain_window boot its))"
proof -
  let ?w = "snd (exec (startup_window_steps boot) (world0 globals0))"
  have n: "fst (exec (startup_window_steps boot) (world0 globals0)) = Normal"
    using assms(1) by (simp add: WinMain_window_def run_cases split: if_split_asm status.splits)
  have l: "fst (MainLoop Render_window its ?w) = Looping"
    using assms(1) n by (simp add: WinMain_window_def run_cases)
  have "fence_after (0 + length its) (snd (MainLoop Render_window its ?w))"
  proof (rule MainLoop_fence [where render = Render_window])
    show "fence_after 0 ?w" using n by (rule startup_window_fence)
    show "0 + length its + 1 < 2 ^ 64" using assms(2) by simp
    show "fst (MainLoop Render_window its ?w) = Looping" by (rule l)
  qed (rule Render_window_fence)
  then show ?thesis using n by (simp add: WinMain_window_def run_cases)
qed

lemma fence_after_next_frame:
  assumes "fence_after n w" "n + 2 < 2 ^ 64"
  shows "fence_inv (snd (pump e ms w))" and "g_fenceValue (globals (snd (pump e ms w))) \<noteq> - 1"
proof -
  have k: "fence_after n (snd (pump e ms w))" using assms(1) by (rule pump_fence_after)
  have b: "n + 1 < 2 ^ 64" using assms(2) by simp
  show "fence_inv (snd (pump e ms w))" using k b by (rule fence_after_inv(1))
  have u: "unat (g_fenceValue (globals (snd (pump e ms w)))) = n + 1"
    using k b by (rule fence_after_inv(2))
  show "g_fenceValue (globals (snd (pump e ms w))) \<noteq> - 1"
  proof
    assume "g_fenceValue (globals (snd (pump e ms w))) = - 1"
    then have "unat (g_fenceValue (globals (snd (pump e ms w)))) = 2 ^ 64 - 1"
      by (simp add: unsigned_minus_1_eq_mask mask_eq_exp_minus_1)
    then show False using u assms(2) by simp
  qed
qed

subsection \<open>The window handle\<close>

lemma swap_chain_for_other_simps [simp]:
  "swap_chain_for_other h (Device d) =
     (case d of CreateSwapChainForHwnd q h' n \<Rightarrow> h' \<noteq> h | _ \<Rightarrow> False)"
  "swap_chain_for_other h (Object ob) = False"
  "swap_chain_for_other h (Win32 x) = False"
  "swap_chain_for_other h (Cmd l) = False"
  by (simp_all add: swap_chain_for_other_def)

lemma Render_swap_chains:
  "count_calls (swap_chain_for_other h) (trace (snd (Render e w))) =
     count_calls (swap_chain_for_other h) (trace w)"
  by (simp add: Render_def Render_steps_def Let_def)

lemma Render_window_swap_chains:
  "count_calls (swap_chain_for_other h) (trace (snd (Render_window e w))) =
     count_calls (swap_chain_for_other h) (trace w)"
  by (simp add: Render_window_def Render_window_steps_def Let_def)

lemma startup_swap_chains:
  "count_calls (swap_chain_for_other (hwnd_of boot))
     (trace (snd (exec (startup_steps boot) (world0 g)))) = 0"
  by (simp add: startup_defs world0_def)

lemma startup_window_swap_chains:
  "count_calls (swap_chain_for_other (hwnd_of boot))
     (trace (snd (exec (startup_window_steps boot) (world0 g)))) = 0"
  by (simp add: startup_defs world0_def)

lemma startup_swap_chain_call:
  assumes "\<not> FAILED (hr boot (Device CreateDXGIFactory1))"
    "\<not> FAILED (hr boot (Device D3D12CreateDevice))"
    "\<not> FAILED (hr boot (Device CreateCommandQueue))"
  shows "take 8 (trace (snd (exec (startup_steps boot) (world0 g)))) =
     [Win32 RegisterClass, Win32 (CreateWindowEx 800 600), Win32 (ShowWindow (hwnd_of boot)),
      Win32 (UpdateWindow (hwnd_of boot)), Device CreateDXGIFactory1, Device D3D12CreateDevice,
      Device CreateCommandQueue,
      Device (CreateSwapChainForHwnd (created boot (Device CreateCommandQueue)) (hwnd_of boot) 2)]"
    and "8 \<le> length (trace (snd (exec (startup_steps boot) (world0 g))))"
  using assms by (simp_all add: startup_defs world0_def)

lemma startup_window_swap_chain_call:
  assumes "\<not> FAILED (hr boot (Device CreateDXGIFactory1))"
    "\<not> FAILED (hr boot (Device D3D12CreateDevice))"
    "\<not> FAILED (hr boot (Device CreateCommandQueue))"
  shows "take 7 (trace (snd (exec (startup_window_steps boot) (world0 g)))) =
     [Win32 RegisterClass, Win32 (CreateWindowEx 800 600), Win32 (ShowWindow (hwnd_of boot)),
      Device CreateDXGIFactory1, Device D3D12CreateDevice, Device CreateCommandQueue,
      Device (CreateSwapChainForHwnd (created boot (Device CreateCommandQueue)) (hwnd_of boot) 2)]"
    and "7 \<le> length (trace (snd (exec (startup_window_steps boot) (world0 g))))"
  using assms by (simp_all add: startup_defs world0_def)

section \<open>The frame\<close>

text \<open>
  C1. In the triangle program a call to \<open>Render\<close> makes its calls in the order of section
  4.H: whatever the platform answers, the calls made are an initial part of the protocol's
  sequence, and when no call fails and the fence event fires they are the whole sequence,
  the fence has reached the signalled value when \<open>Render\<close> returns, the counter has been
  incremented and the frame index is the swap chain's current back-buffer index. The frame
  index is 0 or 1 when the frame starts, as it is between frames.
\<close>

theorem Render_follows_frame_protocol:
  assumes "g_frameIndex (globals w) < 2"
  shows "prefix (trace (snd (Render e w)))
           (trace w @ frame_protocol e (globals w)
              (\<not> gpu_done_at_poll e \<and> fence_completed (platform w) < g_fenceValue (globals w))) \<and>
         ((\<forall>c. \<not> FAILED (hr e c)) \<and> event_fires e \<longrightarrow>
            fst (Render e w) = Normal \<and>
            trace (snd (Render e w)) =
              trace w @ frame_protocol e (globals w)
                (\<not> gpu_done_at_poll e \<and> fence_completed (platform w) < g_fenceValue (globals w)) \<and>
            g_fenceValue (globals w) \<le> fence_completed (platform (snd (Render e w))) \<and>
            g_fenceValue (globals (snd (Render e w))) = g_fenceValue (globals w) + 1 \<and>
            g_frameIndex (globals (snd (Render e w))) =
              current_back_buffer (platform (snd (Render e w))))"
proof -
  have "prefix (trace (snd (Render e w)))
           (trace w @ frame_protocol e (globals w)
              (\<not> gpu_done_at_poll e \<and> fence_completed (platform w) < g_fenceValue (globals w)))"
    using assms
    by (simp add: Render_def Render_steps_def Let_def frame_protocol_def rtvHandle_small
        clearColor_def)
  moreover have "(\<forall>c. \<not> FAILED (hr e c)) \<and> event_fires e \<longrightarrow>
            fst (Render e w) = Normal \<and>
            trace (snd (Render e w)) =
              trace w @ frame_protocol e (globals w)
                (\<not> gpu_done_at_poll e \<and> fence_completed (platform w) < g_fenceValue (globals w)) \<and>
            g_fenceValue (globals (snd (Render e w))) = g_fenceValue (globals w) + 1 \<and>
            g_frameIndex (globals (snd (Render e w))) =
              current_back_buffer (platform (snd (Render e w)))"
    using assms
    by (simp add: Render_def Render_steps_def Let_def frame_protocol_def rtvHandle_small
        clearColor_def)
  moreover have "(\<forall>c. \<not> FAILED (hr e c)) \<and> event_fires e \<longrightarrow>
            g_fenceValue (globals w) \<le> fence_completed (platform (snd (Render e w)))"
  proof -
    have "(\<forall>c. \<not> FAILED (hr e c)) \<and> event_fires e \<longrightarrow>
       fence_completed (platform (snd (Render e w))) =
         (if gpu_done_at_poll e \<or> fence_completed (platform w) < g_fenceValue (globals w)
          then g_fenceValue (globals w) else fence_completed (platform w))"
      by (simp add: Render_def Render_steps_def Let_def)
    then show ?thesis by (simp add: linorder_not_less)
  qed
  ultimately show ?thesis by blast
qed

text \<open>C1, on a platform where every call succeeds and the GPU is still busy at the poll.\<close>

theorem Render_follows_frame_protocol_witness:
  "g_frameIndex (globals world_ready) < 2 \<and> (\<forall>c. \<not> FAILED (hr env_ok c)) \<and> event_fires env_ok \<and>
   fst (Render env_ok world_ready) = Normal \<and>
   trace (snd (Render env_ok world_ready)) =
     [Object CommandAllocator_Reset, Cmd (Reset 1 1),
      Cmd (RSSetViewports
        [\<lparr>TopLeftX = 0, TopLeftY = 0, Width = 800, Height = 600, MinDepth = 0, MaxDepth = 1\<rparr>]),
      Cmd (RSSetScissorRects [\<lparr>left = 0, top = 0, right = 800, bottom = 600\<rparr>]),
      Device GetDescriptorHandleIncrementSize, Object GetCPUDescriptorHandleForHeapStart,
      Cmd (OMSetRenderTargets [4096]),
      Cmd (ClearRenderTargetView 4096 [0.2, 0.4, 0.6, 1.0]),
      Cmd (IASetPrimitiveTopology D3D_PRIMITIVE_TOPOLOGY_TRIANGLELIST),
      Cmd (IASetVertexBuffers 0
        [\<lparr>BufferLocation = 65536, StrideInBytes = 28, SizeInElements = 3\<rparr>]),
      Cmd (DrawInstanced 3 1 0 0),
      Cmd Close, Object (ExecuteCommandLists [1]), Object (Present 1 0),
      Object (Signal 1 1), Object GetCompletedValue,
      Object (SetEventOnCompletion 1 1), Win32 (WaitForSingleObject 1 INFINITE),
      Object GetCurrentBackBufferIndex] \<and>
   g_fenceValue (globals (snd (Render env_ok world_ready))) = 2 \<and>
   g_frameIndex (globals (snd (Render env_ok world_ready))) = 1"
  using Render_follows_frame_protocol [of world_ready env_ok]
  by (simp add: world_ready_def env_ok_def frame_protocol_def FAILED_def platform0_def
      Render_def Render_steps_def Let_def)

text \<open>
  C4. The wait at the end of a frame polls the fence; if the completed value is below the
  target \<open>g_fenceValue\<close> it registers the fence event for that value and waits on it with
  \<open>INFINITE\<close>, returning when the event fires and never otherwise; if not, it returns at once
  and makes no call on the event.
\<close>

theorem wait_for_fence_blocks_until_event:
  "(fence_completed (platform (called e (Object GetCompletedValue) w)) < g_fenceValue (globals w) \<longrightarrow>
      \<not> FAILED (hr e (Object (SetEventOnCompletion (g_fenceValue (globals w))
                                (g_fenceEvent (globals w))))) \<longrightarrow>
      fst (wait_for_fence e w) = (if event_fires e then Normal else Blocked) \<and>
      trace (snd (wait_for_fence e w)) =
        trace w @ [Object GetCompletedValue,
                   Object (SetEventOnCompletion (g_fenceValue (globals w)) (g_fenceEvent (globals w))),
                   Win32 (WaitForSingleObject (g_fenceEvent (globals w)) INFINITE)]) \<and>
   (\<not> fence_completed (platform (called e (Object GetCompletedValue) w)) < g_fenceValue (globals w) \<longrightarrow>
      fst (wait_for_fence e w) = Normal \<and>
      trace (snd (wait_for_fence e w)) = trace w @ [Object GetCompletedValue])"
  by (simp add: wait_for_fence_def Let_def)

text \<open>
  C4, where the GPU is still busy (the wait returns, or blocks if the event never fires)
  and where it is done at the poll.
\<close>

theorem wait_for_fence_blocks_until_event_witness:
  "fence_completed (platform (called env_ok (Object GetCompletedValue) world_ready))
     < g_fenceValue (globals world_ready) \<and>
   \<not> FAILED (hr env_ok (Object (SetEventOnCompletion (g_fenceValue (globals world_ready))
                                (g_fenceEvent (globals world_ready))))) \<and>
   fst (wait_for_fence env_ok world_ready) = Normal \<and>
   trace (snd (wait_for_fence env_ok world_ready)) =
     [Object GetCompletedValue, Object (SetEventOnCompletion 1 1),
      Win32 (WaitForSingleObject 1 INFINITE)] \<and>
   fst (wait_for_fence (env_ok\<lparr>event_fires := False\<rparr>) world_ready) = Blocked \<and>
   \<not> fence_completed (platform (called env_fast (Object GetCompletedValue)
        (world_ready\<lparr>platform := platform0\<lparr>fence_signaled := 1\<rparr>\<rparr>)))
     < g_fenceValue (globals world_ready) \<and>
   trace (snd (wait_for_fence env_fast (world_ready\<lparr>platform := platform0\<lparr>fence_signaled := 1\<rparr>\<rparr>))) =
     [Object GetCompletedValue]"
  using wait_for_fence_blocks_until_event [of env_ok world_ready]
    wait_for_fence_blocks_until_event [of "env_ok\<lparr>event_fires := False\<rparr>" world_ready]
    wait_for_fence_blocks_until_event
      [of env_fast "world_ready\<lparr>platform := platform0\<lparr>fence_signaled := 1\<rparr>\<rparr>"]
  by (simp add: world_ready_def env_ok_def env_fast_def FAILED_def platform0_def)

text \<open>
  C10. In both programs a \<open>Render\<close> that returns leaves every global as it was, except that
  \<open>g_fenceValue\<close> is one larger and \<open>g_frameIndex\<close> is the swap chain's current
  back-buffer index.
\<close>

theorem Render_modifies_two_globals:
  "(fst (Render e w) = Normal \<longrightarrow>
      globals (snd (Render e w)) =
        (globals w)\<lparr>g_fenceValue := g_fenceValue (globals w) + 1,
                    g_frameIndex := current_back_buffer (platform (snd (Render e w)))\<rparr>) \<and>
   (fst (Render_window e v) = Normal \<longrightarrow>
      globals (snd (Render_window e v)) =
        (globals v)\<lparr>g_fenceValue := g_fenceValue (globals v) + 1,
                    g_frameIndex := current_back_buffer (platform (snd (Render_window e v)))\<rparr>)"
  using Render_globals [of e w "snd (Render e w)"]
    Render_window_globals [of e v "snd (Render_window e v)"]
  by (simp add: prod_eq_iff)

text \<open>C10, on the first frame of either program.\<close>

theorem Render_modifies_two_globals_witness:
  "fst (Render env_ok world_ready) = Normal \<and>
   fst (Render_window env_ok world_ready_window) = Normal \<and>
   globals (snd (Render env_ok world_ready)) =
     (globals world_ready)\<lparr>g_fenceValue := 2, g_frameIndex := 1\<rparr> \<and>
   globals (snd (Render_window env_ok world_ready_window)) =
     (globals world_ready_window)\<lparr>g_fenceValue := 2, g_frameIndex := 1\<rparr>"
proof -
  have a: "fst (Render env_ok world_ready) = Normal"
    by (simp add: Render_def Render_steps_def Let_def world_ready_def env_ok_def FAILED_def
        platform0_def)
  have b: "fst (Render_window env_ok world_ready_window) = Normal"
    by (simp add: Render_window_def Render_window_steps_def Let_def world_ready_window_def
        env_ok_def FAILED_def platform0_def)
  have c: "current_back_buffer (platform (snd (Render env_ok world_ready))) = 1"
    by (simp add: Render_def Render_steps_def Let_def world_ready_def env_ok_def FAILED_def
        platform0_def)
  have d: "current_back_buffer (platform (snd (Render_window env_ok world_ready_window))) = 1"
    by (simp add: Render_window_def Render_window_steps_def Let_def world_ready_window_def
        env_ok_def FAILED_def platform0_def)
  show ?thesis
    using Render_modifies_two_globals [of env_ok world_ready world_ready_window] a b c d
    by (simp add: world_ready_def world_ready_window_def)
qed

text \<open>
  C2 as stated fails: the first frame of either program clears (and draws to) a back buffer
  that no barrier has moved out of \<open>PRESENT\<close>.
\<close>

theorem frame_without_barriers_counterexample:
  "\<not> barriers_in_place (trace (snd (Render env_ok world_ready))) \<and>
   \<not> barriers_in_place (trace (snd (Render_window env_ok world_ready_window)))"
  by (simp add: Render_def Render_steps_def Render_window_def Render_window_steps_def Let_def
      world_ready_def world_ready_window_def env_ok_def FAILED_def platform0_def
      barriers_in_place_def back_buffer_after_def)

text \<open>
  C2, amended. No frame records a resource barrier: after \<open>Render\<close> the trace holds as
  many \<open>ResourceBarrier\<close> calls as before it, in either program, whatever the platform
  answers.
\<close>

theorem Render_records_no_barrier:
  "count_calls is_ResourceBarrier (trace (snd (Render e w))) =
     count_calls is_ResourceBarrier (trace w) \<and>
   count_calls is_ResourceBarrier (trace (snd (Render_window e v))) =
     count_calls is_ResourceBarrier (trace v)"
proof -
  have "count_calls is_ResourceBarrier (trace (snd (Render e w))) =
      count_calls is_ResourceBarrier (trace w)"
    by (simp add: Render_def Render_steps_def Let_def is_ResourceBarrier_def)
  moreover have "count_calls is_ResourceBarrier (trace (snd (Render_window e v))) =
      count_calls is_ResourceBarrier (trace v)"
    by (simp add: Render_window_def Render_window_steps_def Let_def is_ResourceBarrier_def)
  ultimately show ?thesis by (rule conjI)
qed

section \<open>The whole run\<close>

text \<open>
  C9 as stated fails: when \<open>Present\<close> fails in the first frame the exception leaves
  \<open>WinMain\<close>, the run has terminated, and \<open>CloseHandle\<close> was never called.
\<close>

theorem fence_event_left_open_counterexample:
  "terminated (fst (WinMain env_ok [([], env_present_fails)])) \<and>
   count_calls is_CloseHandle (trace (snd (WinMain env_ok [([], env_present_fails)]))) \<noteq> 1"
  by (simp add: WinMain_def run_cases world0_def startup_defs env_ok_def env_present_fails_def
      FAILED_def globals_triangle0_def platform0_def Let_def Render_def Render_steps_def
      terminated_def vertices_def vbSize_def sizeof_Vertex_def sizeof_float_def hwnd_of_def)

text \<open>
  C9, amended. In both programs \<open>CloseHandle\<close> is called exactly once on a run that ends
  by \<^verbatim>\<open>return 0\<close> after \<open>WM_QUIT\<close>, as the last call of the run and on \<open>g_fenceEvent\<close>,
  and not at all on any other run: not when an error is raised during initialisation or
  during a frame, and not while the loop is running.
\<close>

theorem fence_event_closed_on_quit_only:
  "count_calls is_CloseHandle (trace (snd (WinMain boot its))) =
     (if fst (WinMain boot its) = Returned 0 then 1 else 0) \<and>
   (fst (WinMain boot its) = Returned 0 \<longrightarrow>
      last (trace (snd (WinMain boot its))) =
        Win32 (CloseHandle (g_fenceEvent (globals (snd (WinMain boot its)))))) \<and>
   count_calls is_CloseHandle (trace (snd (WinMain_window boot its))) =
     (if fst (WinMain_window boot its) = Returned 0 then 1 else 0) \<and>
   (fst (WinMain_window boot its) = Returned 0 \<longrightarrow>
      last (trace (snd (WinMain_window boot its))) =
        Win32 (CloseHandle (g_fenceEvent (globals (snd (WinMain_window boot its))))))"
proof -
  have a: "count_calls is_CloseHandle (trace (snd (WinMain boot its))) =
     (if fst (WinMain boot its) = Returned 0 then 1 else 0)"
    using startup_closes [of boot "world0 globals_triangle0"]
      MainLoop_closes [of Render its "snd (exec (startup_steps boot) (world0 globals_triangle0))",
        OF Render_closes]
    by (simp add: WinMain_def run_cases world0_def split: status.splits)
  have b: "fst (WinMain boot its) = Returned 0 \<longrightarrow>
      last (trace (snd (WinMain boot its))) =
        Win32 (CloseHandle (g_fenceEvent (globals (snd (WinMain boot its)))))"
    using MainLoop_last_call [of Render its
        "snd (exec (startup_steps boot) (world0 globals_triangle0))", OF Render_fenceEvent]
    by (simp add: WinMain_def run_cases split: status.splits)
  have c: "count_calls is_CloseHandle (trace (snd (WinMain_window boot its))) =
     (if fst (WinMain_window boot its) = Returned 0 then 1 else 0)"
    using startup_window_closes [of boot "world0 globals0"]
      MainLoop_closes [of Render_window its
        "snd (exec (startup_window_steps boot) (world0 globals0))", OF Render_window_closes]
    by (simp add: WinMain_window_def run_cases world0_def split: status.splits)
  have d: "fst (WinMain_window boot its) = Returned 0 \<longrightarrow>
      last (trace (snd (WinMain_window boot its))) =
        Win32 (CloseHandle (g_fenceEvent (globals (snd (WinMain_window boot its)))))"
    using MainLoop_last_call [of Render_window its
        "snd (exec (startup_window_steps boot) (world0 globals0))", OF Render_window_fenceEvent]
    by (simp add: WinMain_window_def run_cases split: status.splits)
  show ?thesis using a b c d by (intro conjI)
qed

text \<open>
  C9, on a run that renders one frame and then receives \<open>WM_DESTROY\<close>: the window
  procedure posts the quit message, the loop retrieves \<open>WM_QUIT\<close> and leaves, and the one
  \<open>CloseHandle\<close>, on the fence event, is the last call of the run.
\<close>

theorem fence_event_closed_on_quit_only_witness:
  "fst (WinMain env_ok [([], env_ok), ([WM_DESTROY], env_ok)]) = Returned 0 \<and>
   fst (WinMain_window env_ok [([], env_ok), ([WM_DESTROY], env_ok)]) = Returned 0 \<and>
   count_calls is_CloseHandle
     (trace (snd (WinMain env_ok [([], env_ok), ([WM_DESTROY], env_ok)]))) = 1 \<and>
   last (trace (snd (WinMain env_ok [([], env_ok), ([WM_DESTROY], env_ok)]))) =
     Win32 (CloseHandle 1) \<and>
   count_calls is_CloseHandle
     (trace (snd (WinMain_window env_ok [([], env_ok), ([WM_DESTROY], env_ok)]))) = 1 \<and>
   last (trace (snd (WinMain_window env_ok [([], env_ok), ([WM_DESTROY], env_ok)]))) =
     Win32 (CloseHandle 1)"
proof -
  have a: "fst (WinMain env_ok [([], env_ok), ([WM_DESTROY], env_ok)]) = Returned 0"
    "g_fenceEvent (globals (snd (WinMain env_ok [([], env_ok), ([WM_DESTROY], env_ok)]))) = 1"
    by (simp_all add: WinMain_def run_cases world0_def startup_defs env_ok_def FAILED_def
        globals_triangle0_def platform0_def Let_def Render_def Render_steps_def dispatch_def
        WindowProc_def)
  have b: "fst (WinMain_window env_ok [([], env_ok), ([WM_DESTROY], env_ok)]) = Returned 0"
    "g_fenceEvent (globals (snd (WinMain_window env_ok [([], env_ok), ([WM_DESTROY], env_ok)])))
       = 1"
    by (simp_all add: WinMain_window_def run_cases world0_def startup_defs env_ok_def FAILED_def
        globals0_def platform0_def Let_def Render_window_def Render_window_steps_def
        dispatch_def WindowProc_def)
  show ?thesis
    using fence_event_closed_on_quit_only [of env_ok "[([], env_ok), ([WM_DESTROY], env_ok)]"]
      a b
    by simp
qed

text \<open>
  C7 as stated fails: when \<open>CreateWindowEx\<close> returns null both programs go on into
  \<open>InitD3D12\<close> with the null handle; on a platform that then refuses the swap chain, the
  error is the \<open>HRESULT failed\<close> of \<open>CreateSwapChainForHwnd\<close>, raised after the factory,
  the device and the queue have been created.
\<close>

theorem null_window_reaches_InitD3D12_counterexample:
  "hwnd_of env_no_window = 0 \<and>
   \<not> host_init_failure (WinMain env_no_window []) \<and>
   fst (WinMain env_no_window []) = Terminated (runtime_error ''HRESULT failed'') \<and>
   trace (snd (WinMain env_no_window [])) =
     [Win32 RegisterClass, Win32 (CreateWindowEx 800 600), Win32 (ShowWindow 0),
      Win32 (UpdateWindow 0), Device CreateDXGIFactory1, Device D3D12CreateDevice,
      Device CreateCommandQueue, Device (CreateSwapChainForHwnd 1 0 2)] \<and>
   \<not> host_init_failure (WinMain_window env_no_window []) \<and>
   fst (WinMain_window env_no_window []) = Terminated (runtime_error ''HRESULT failed'') \<and>
   trace (snd (WinMain_window env_no_window [])) =
     [Win32 RegisterClass, Win32 (CreateWindowEx 800 600), Win32 (ShowWindow 0),
      Device CreateDXGIFactory1, Device D3D12CreateDevice, Device CreateCommandQueue,
      Device (CreateSwapChainForHwnd 1 0 2)]"
proof -
  have "\<not> host_init_failure (WinMain env_no_window []) \<and>
      fst (WinMain env_no_window []) = Terminated (runtime_error ''HRESULT failed'') \<and>
      trace (snd (WinMain env_no_window [])) =
        [Win32 RegisterClass, Win32 (CreateWindowEx 800 600), Win32 (ShowWindow 0),
         Win32 (UpdateWindow 0), Device CreateDXGIFactory1, Device D3D12CreateDevice,
         Device CreateCommandQueue, Device (CreateSwapChainForHwnd 1 0 2)]"
    by (simp add: WinMain_def run_cases world0_def startup_defs env_ok_def env_no_window_def
        FAILED_def globals_triangle0_def platform0_def hwnd_of_def host_init_failure_def)
  moreover have "\<not> host_init_failure (WinMain_window env_no_window []) \<and>
      fst (WinMain_window env_no_window []) = Terminated (runtime_error ''HRESULT failed'') \<and>
      trace (snd (WinMain_window env_no_window [])) =
        [Win32 RegisterClass, Win32 (CreateWindowEx 800 600), Win32 (ShowWindow 0),
         Device CreateDXGIFactory1, Device D3D12CreateDevice, Device CreateCommandQueue,
         Device (CreateSwapChainForHwnd 1 0 2)]"
    by (simp add: WinMain_window_def run_cases world0_def startup_defs env_ok_def
        env_no_window_def FAILED_def globals0_def platform0_def hwnd_of_def
        host_init_failure_def)
  moreover have "hwnd_of env_no_window = 0"
    by (simp add: hwnd_of_def env_no_window_def env_ok_def)
  ultimately show ?thesis by simp
qed

text \<open>
  C7, amended. Whatever \<open>RegisterClass\<close> and \<open>CreateWindowEx\<close> return, both programs go on
  to \<open>ShowWindow\<close> (and \<open>UpdateWindow\<close> in \<^verbatim>\<open>main.cpp\<close>) with the handle
  \<open>CreateWindowEx\<close> returned and then enter \<open>InitD3D12\<close>, whose first call creates the
  DXGI factory: no result of the window calls is checked. That handle is the one
  \<open>InitD3D12\<close> is given: once the factory, the device and the queue are created the next
  call asks for a swap chain on it, and no call of the run asks for one on another handle.
\<close>

theorem WinMain_enters_InitD3D12_regardless:
  "take 5 (trace (snd (WinMain boot its))) =
     [Win32 RegisterClass, Win32 (CreateWindowEx 800 600), Win32 (ShowWindow (hwnd_of boot)),
      Win32 (UpdateWindow (hwnd_of boot)), Device CreateDXGIFactory1] \<and>
   count_calls (swap_chain_for_other (hwnd_of boot)) (trace (snd (WinMain boot its))) = 0 \<and>
   (\<not> FAILED (hr boot (Device CreateDXGIFactory1)) \<and>
    \<not> FAILED (hr boot (Device D3D12CreateDevice)) \<and>
    \<not> FAILED (hr boot (Device CreateCommandQueue)) \<longrightarrow>
      take 8 (trace (snd (WinMain boot its))) =
        [Win32 RegisterClass, Win32 (CreateWindowEx 800 600), Win32 (ShowWindow (hwnd_of boot)),
         Win32 (UpdateWindow (hwnd_of boot)), Device CreateDXGIFactory1,
         Device D3D12CreateDevice, Device CreateCommandQueue,
         Device (CreateSwapChainForHwnd (created boot (Device CreateCommandQueue))
           (hwnd_of boot) 2)]) \<and>
   take 4 (trace (snd (WinMain_window boot its))) =
     [Win32 RegisterClass, Win32 (CreateWindowEx 800 600), Win32 (ShowWindow (hwnd_of boot)),
      Device CreateDXGIFactory1] \<and>
   count_calls (swap_chain_for_other (hwnd_of boot))
     (trace (snd (WinMain_window boot its))) = 0 \<and>
   (\<not> FAILED (hr boot (Device CreateDXGIFactory1)) \<and>
    \<not> FAILED (hr boot (Device D3D12CreateDevice)) \<and>
    \<not> FAILED (hr boot (Device CreateCommandQueue)) \<longrightarrow>
      take 7 (trace (snd (WinMain_window boot its))) =
        [Win32 RegisterClass, Win32 (CreateWindowEx 800 600), Win32 (ShowWindow (hwnd_of boot)),
         Device CreateDXGIFactory1, Device D3D12CreateDevice, Device CreateCommandQueue,
         Device (CreateSwapChainForHwnd (created boot (Device CreateCommandQueue))
           (hwnd_of boot) 2)])"
proof -
  let ?t = "snd (exec (startup_steps boot) (world0 globals_triangle0))"
  let ?v = "snd (exec (startup_window_steps boot) (world0 globals0))"
  have pt: "prefix (trace ?t) (trace (snd (WinMain boot its)))"
    unfolding WinMain_def by (rule run_extends) (rule MainLoop_extends, rule Render_extends)
  have pv: "prefix (trace ?v) (trace (snd (WinMain_window boot its)))"
    unfolding WinMain_window_def
    by (rule run_extends) (rule MainLoop_extends, rule Render_window_extends)
  have a: "take 5 (trace (snd (WinMain boot its))) =
      [Win32 RegisterClass, Win32 (CreateWindowEx 800 600), Win32 (ShowWindow (hwnd_of boot)),
       Win32 (UpdateWindow (hwnd_of boot)), Device CreateDXGIFactory1]"
    using take_prefix [OF pt startup_first_calls(2)]
      startup_first_calls(1) [of boot globals_triangle0]
    by simp
  have b: "count_calls (swap_chain_for_other (hwnd_of boot))
      (trace (snd (WinMain boot its))) = 0"
    using startup_swap_chains [of boot globals_triangle0]
      MainLoop_count [of "swap_chain_for_other (hwnd_of boot)" Render its ?t,
        OF Render_swap_chains]
    by (simp add: WinMain_def run_cases)
  have c: "take 8 (trace (snd (WinMain boot its))) =
      [Win32 RegisterClass, Win32 (CreateWindowEx 800 600), Win32 (ShowWindow (hwnd_of boot)),
       Win32 (UpdateWindow (hwnd_of boot)), Device CreateDXGIFactory1,
       Device D3D12CreateDevice, Device CreateCommandQueue,
       Device (CreateSwapChainForHwnd (created boot (Device CreateCommandQueue))
         (hwnd_of boot) 2)]"
    if "\<not> FAILED (hr boot (Device CreateDXGIFactory1))"
      "\<not> FAILED (hr boot (Device D3D12CreateDevice))"
      "\<not> FAILED (hr boot (Device CreateCommandQueue))"
    using take_prefix [OF pt startup_swap_chain_call(2) [OF that]]
      startup_swap_chain_call(1) [OF that, of globals_triangle0]
    by simp
  have d: "take 4 (trace (snd (WinMain_window boot its))) =
      [Win32 RegisterClass, Win32 (CreateWindowEx 800 600), Win32 (ShowWindow (hwnd_of boot)),
       Device CreateDXGIFactory1]"
    using take_prefix [OF pv startup_window_first_calls(2)]
      startup_window_first_calls(1) [of boot globals0]
    by simp
  have e: "count_calls (swap_chain_for_other (hwnd_of boot))
      (trace (snd (WinMain_window boot its))) = 0"
    using startup_window_swap_chains [of boot globals0]
      MainLoop_count [of "swap_chain_for_other (hwnd_of boot)" Render_window its ?v,
        OF Render_window_swap_chains]
    by (simp add: WinMain_window_def run_cases)
  have f: "take 7 (trace (snd (WinMain_window boot its))) =
      [Win32 RegisterClass, Win32 (CreateWindowEx 800 600), Win32 (ShowWindow (hwnd_of boot)),
       Device CreateDXGIFactory1, Device D3D12CreateDevice, Device CreateCommandQueue,
       Device (CreateSwapChainForHwnd (created boot (Device CreateCommandQueue))
         (hwnd_of boot) 2)]"
    if "\<not> FAILED (hr boot (Device CreateDXGIFactory1))"
      "\<not> FAILED (hr boot (Device D3D12CreateDevice))"
      "\<not> FAILED (hr boot (Device CreateCommandQueue))"
    using take_prefix [OF pv startup_window_swap_chain_call(2) [OF that]]
      startup_window_swap_chain_call(1) [OF that, of globals0]
    by simp
  show ?thesis using a b c d e f by blast
qed

text \<open>
  C7, on the platform where \<open>CreateWindowEx\<close> returns null: the swap chain is requested
  for the null handle, in both programs.
\<close>

theorem WinMain_enters_InitD3D12_regardless_witness:
  "hwnd_of env_no_window = 0 \<and>
   \<not> FAILED (hr env_no_window (Device CreateDXGIFactory1)) \<and>
   \<not> FAILED (hr env_no_window (Device D3D12CreateDevice)) \<and>
   \<not> FAILED (hr env_no_window (Device CreateCommandQueue)) \<and>
   take 8 (trace (snd (WinMain env_no_window [([], env_ok)]))) =
     [Win32 RegisterClass, Win32 (CreateWindowEx 800 600), Win32 (ShowWindow 0),
      Win32 (UpdateWindow 0), Device CreateDXGIFactory1, Device D3D12CreateDevice,
      Device CreateCommandQueue, Device (CreateSwapChainForHwnd 1 0 2)] \<and>
   take 7 (trace (snd (WinMain_window env_no_window [([], env_ok)]))) =
     [Win32 RegisterClass, Win32 (CreateWindowEx 800 600), Win32 (ShowWindow 0),
      Device CreateDXGIFactory1, Device D3D12CreateDevice, Device CreateCommandQueue,
      Device (CreateSwapChainForHwnd 1 0 2)] \<and>
   count_calls (swap_chain_for_other 0) (trace (snd (WinMain env_no_window [([], env_ok)]))) = 0 \<and>
   count_calls (swap_chain_for_other 0)
     (trace (snd (WinMain_window env_no_window [([], env_ok)]))) = 0"
  using WinMain_enters_InitD3D12_regardless [of env_no_window "[([], env_ok)]"]
  by (simp add: hwnd_of_def env_no_window_def env_ok_def FAILED_def)

text \<open>
  C8. The vertex data are the three vertices of the claim, 28 bytes each and 84 in all.
  When the start of \<open>WinMain\<close> completes, the last calls of \<open>InitD3D12\<close> created an
  84-byte committed resource on an UPLOAD heap in state GENERIC_READ, mapped it with read
  range (0, 0), copied the vertices, unmapped it with a null range and asked for its GPU
  address; the view holds that address, stride 28 and size-in-elements 3; and \<open>Map\<close> is
  called exactly once in the whole run.
\<close>

theorem vertex_buffer_created_once:
  "vertices =
     [\<lparr>pos = [0, 0.5, 0], col = [1, 0, 0, 1]\<rparr>,
      \<lparr>pos = [- 0.5, - 0.5, 0], col = [0, 1, 0, 1]\<rparr>,
      \<lparr>pos = [0.5, - 0.5, 0], col = [0, 0, 1, 1]\<rparr>] \<and>
   sizeof_Vertex = 28 \<and> vbSize = 84 \<and>
   (fst (exec (startup_steps boot) (world0 globals_triangle0)) = Normal \<longrightarrow>
      g_vbView (globals (snd (exec (startup_steps boot) (world0 globals_triangle0)))) =
        \<lparr>BufferLocation = gpu_address boot, StrideInBytes = 28, SizeInElements = 3\<rparr> \<and>
      suffix
        [Device (CreateCommittedResource D3D12_HEAP_TYPE_UPLOAD 84
           D3D12_RESOURCE_STATE_GENERIC_READ),
         Object (Map_Resource 0 (Some (0, 0))), Win32 (memcpy vertices 84),
         Object (Unmap_Resource 0 None), Object GetGPUVirtualAddress]
        (trace (snd (exec (startup_steps boot) (world0 globals_triangle0)))) \<and>
      count_calls is_Map (trace (snd (WinMain boot its))) = 1)"
proof -
  have "fst (exec (startup_steps boot) (world0 globals_triangle0)) = Normal \<longrightarrow>
      count_calls is_Map (trace (snd (WinMain boot its))) = 1"
    using startup_vertex_buffer(3) [of boot globals_triangle0]
      MainLoop_count [of is_Map Render its
        "snd (exec (startup_steps boot) (world0 globals_triangle0))", OF Render_maps]
    by (simp add: WinMain_def run_cases)
  then show ?thesis
    using startup_vertex_buffer(1,2) [of boot globals_triangle0]
    by (simp add: vertices_def sizeof_Vertex_def sizeof_float_def vbSize_def)
qed

text \<open>C8, on a platform where every call succeeds, with no frame yet rendered.\<close>

theorem vertex_buffer_created_once_witness:
  "fst (exec (startup_steps env_ok) (world0 globals_triangle0)) = Normal \<and>
   g_vbView (globals (snd (exec (startup_steps env_ok) (world0 globals_triangle0)))) =
     \<lparr>BufferLocation = 65536, StrideInBytes = 28, SizeInElements = 3\<rparr> \<and>
   count_calls is_Map (trace (snd (WinMain env_ok []))) = 1"
proof -
  have "fst (exec (startup_steps env_ok) (world0 globals_triangle0)) = Normal"
    by (simp add: startup_defs world0_def env_ok_def FAILED_def)
  then show ?thesis
    using vertex_buffer_created_once [of env_ok "[]"] by (simp add: env_ok_def)
qed

text \<open>
  C6 as stated fails on initialisation: the \<open>Close\<close> in \<open>InitD3D12\<close> follows the creation
  of the list, not a \<open>Reset\<close>.
\<close>

theorem first_Close_has_no_Reset_counterexample:
  "\<not> close_follows_one_reset (trace (snd (WinMain env_ok []))) \<and>
   \<not> close_follows_one_reset (trace (snd (WinMain_window env_ok [])))"
  by (simp add: WinMain_def WinMain_window_def run_cases world0_def startup_defs env_ok_def
      FAILED_def close_follows_one_reset_def)

text \<open>
  C6, amended. In the whole run of either program every \<open>Close\<close> is preceded, since the
  previous \<open>Close\<close>, by exactly one call that opens the command list: the one
  \<open>CreateCommandList\<close> for the \<open>Close\<close> of initialisation, and a \<open>Reset\<close> for the \<open>Close\<close> of
  each frame.
\<close>

theorem Close_follows_one_open:
  "close_follows_one_open (trace (snd (WinMain boot its))) \<and>
   count_calls is_CreateCommandList (trace (snd (WinMain boot its))) \<le> 1 \<and>
   close_follows_one_open (trace (snd (WinMain_window boot its))) \<and>
   count_calls is_CreateCommandList (trace (snd (WinMain_window boot its))) \<le> 1"
proof -
  have a: "close_follows_one_open (trace (snd (WinMain boot its)))"
    using startup_opens [of boot globals_triangle0]
      MainLoop_opens [of Render "snd (exec (startup_steps boot) (world0 globals_triangle0))" its,
        OF Render_opens]
    by (simp add: WinMain_def run_cases close_follows_one_open_def)
  have b: "count_calls is_CreateCommandList (trace (snd (WinMain boot its))) \<le> 1"
    using startup_creates [of boot globals_triangle0]
      MainLoop_count [of is_CreateCommandList Render its
        "snd (exec (startup_steps boot) (world0 globals_triangle0))", OF Render_creates]
    by (simp add: WinMain_def run_cases)
  have c: "close_follows_one_open (trace (snd (WinMain_window boot its)))"
    using startup_window_opens [of boot globals0]
      MainLoop_opens [of Render_window
        "snd (exec (startup_window_steps boot) (world0 globals0))" its, OF Render_window_opens]
    by (simp add: WinMain_window_def run_cases close_follows_one_open_def)
  have d: "count_calls is_CreateCommandList (trace (snd (WinMain_window boot its))) \<le> 1"
    using startup_window_creates [of boot globals0]
      MainLoop_count [of is_CreateCommandList Render_window its
        "snd (exec (startup_window_steps boot) (world0 globals0))", OF Render_window_creates]
    by (simp add: WinMain_window_def run_cases)
  show ?thesis using a b c d by simp
qed

text \<open>
  C5. Whenever \<open>WinMain\<close> is between two frames (initialisation is complete and any number
  of frames have been rendered) or has returned, \<open>g_frameIndex\<close> is the swap chain's current
  back-buffer index and is 0 or 1, the message loop that runs before the next \<open>Render\<close>
  leaves that so, and the RTV handle computed from it addresses slot 0 or slot 1 of the
  heap. The same holds for \<^verbatim>\<open>dx12window.cpp\<close>.
\<close>

theorem frameIndex_is_current_back_buffer:
  "(fst (WinMain boot its) = Looping \<or> fst (WinMain boot its) = Returned 0 \<longrightarrow>
      frame_index_inv (snd (WinMain boot its)) \<and>
      frame_index_inv (snd (pump e ms (snd (WinMain boot its)))) \<and>
      addresses_slot e (g_frameIndex (globals (snd (WinMain boot its))))) \<and>
   (fst (WinMain_window boot its) = Looping \<or> fst (WinMain_window boot its) = Returned 0 \<longrightarrow>
      frame_index_inv (snd (WinMain_window boot its)) \<and>
      frame_index_inv (snd (pump e ms (snd (WinMain_window boot its)))) \<and>
      addresses_slot e (g_frameIndex (globals (snd (WinMain_window boot its)))))"
proof -
  have a: "frame_index_inv (snd (WinMain boot its)) \<and>
      frame_index_inv (snd (pump e ms (snd (WinMain boot its)))) \<and>
      addresses_slot e (g_frameIndex (globals (snd (WinMain boot its))))"
    if "fst (WinMain boot its) = Looping \<or> fst (WinMain boot its) = Returned 0"
  proof -
    have i: "frame_index_inv (snd (WinMain boot its))"
      using that by (rule WinMain_frame_index)
    then have "g_frameIndex (globals (snd (WinMain boot its))) < 2"
      by (auto simp add: frame_index_inv_def)
    then have "addresses_slot e (g_frameIndex (globals (snd (WinMain boot its))))"
      by (rule frame_index_addresses_slot)
    with i show ?thesis by (simp add: pump_frame_index)
  qed
  have b: "frame_index_inv (snd (WinMain_window boot its)) \<and>
      frame_index_inv (snd (pump e ms (snd (WinMain_window boot its)))) \<and>
      addresses_slot e (g_frameIndex (globals (snd (WinMain_window boot its))))"
    if "fst (WinMain_window boot its) = Looping \<or> fst (WinMain_window boot its) = Returned 0"
  proof -
    have i: "frame_index_inv (snd (WinMain_window boot its))"
      using that by (rule WinMain_window_frame_index)
    then have "g_frameIndex (globals (snd (WinMain_window boot its))) < 2"
      by (auto simp add: frame_index_inv_def)
    then have "addresses_slot e (g_frameIndex (globals (snd (WinMain_window boot its))))"
      by (rule frame_index_addresses_slot)
    with i show ?thesis by (simp add: pump_frame_index)
  qed
  show ?thesis using a b by blast
qed

text \<open>C5, after initialisation and one frame on a platform where every call succeeds.\<close>

theorem frameIndex_is_current_back_buffer_witness:
  "fst (WinMain env_ok [([], env_ok)]) = Looping \<and>
   fst (WinMain_window env_ok [([], env_ok)]) = Looping \<and>
   g_frameIndex (globals (snd (WinMain env_ok [([], env_ok)]))) = 1 \<and>
   current_back_buffer (platform (snd (WinMain env_ok [([], env_ok)]))) = 1 \<and>
   g_frameIndex (globals (snd (WinMain_window env_ok [([], env_ok)]))) = 1 \<and>
   current_back_buffer (platform (snd (WinMain_window env_ok [([], env_ok)]))) = 1 \<and>
   addresses_slot env_ok 1"
proof -
  have a: "fst (WinMain env_ok [([], env_ok)]) = Looping"
    "g_frameIndex (globals (snd (WinMain env_ok [([], env_ok)]))) = 1"
    by (simp_all add: WinMain_def run_cases world0_def startup_defs env_ok_def FAILED_def
        globals_triangle0_def platform0_def Let_def Render_def Render_steps_def)
  have b: "fst (WinMain_window env_ok [([], env_ok)]) = Looping"
    "g_frameIndex (globals (snd (WinMain_window env_ok [([], env_ok)]))) = 1"
    by (simp_all add: WinMain_window_def run_cases world0_def startup_defs env_ok_def FAILED_def
        globals0_def platform0_def Let_def Render_window_def Render_window_steps_def)
  show ?thesis
    using frameIndex_is_current_back_buffer [of env_ok "[([], env_ok)]" env_ok "[]"] a b
    by (simp add: frame_index_inv_def)
qed

text \<open>
  C3 as stated fails for large \<open>n\<close>: the counter is a 64-bit value. After \<open>2^64 - 1\<close> frames
  on a platform where every call succeeds the counter is 0, not \<open>2^64\<close>, and the value last
  signalled, \<open>2^64 - 1\<close>, is above it.
\<close>

theorem fence_counter_wraps_counterexample:
  "fst (WinMain env_ok (replicate (2 ^ 64 - 1) ([], env_ok))) = Looping \<and>
   g_fenceValue (globals (snd (WinMain env_ok (replicate (2 ^ 64 - 1) ([], env_ok))))) = 0 \<and>
   \<not> fence_inv (snd (WinMain env_ok (replicate (2 ^ 64 - 1) ([], env_ok))))"
proof -
  let ?w = "snd (exec (startup_steps env_ok) (world0 globals_triangle0))"
  let ?its = "replicate (2 ^ 64 - 1) ([] :: msg list, env_ok)"
  have W: "WinMain env_ok ?its = MainLoop Render ?its ?w"
    by (simp add: WinMain_def run_cases startup_env_ok(1))
  have n: "(1 :: 64 word) + of_nat (2 ^ 64 - 1) = 0" by simp
  have m: "(1 :: 64 word) + of_nat (2 ^ 64 - 1) - 1 = - 1" by simp
  have f: "fst (MainLoop Render ?its ?w) = Looping"
    and c: "g_fenceValue (globals (snd (MainLoop Render ?its ?w))) = 0"
    and s: "fence_signaled (platform (snd (MainLoop Render ?its ?w))) = - 1"
    using frames_env_ok [OF startup_env_ok(3), of "2 ^ 64 - 1"] n m
    by (simp_all add: startup_env_ok(2))
  have "\<not> fence_inv (snd (MainLoop Render ?its ?w))"
    using c s by (simp add: fence_inv_def)
  then show ?thesis using f c by (simp only: W simp_thms)
qed

text \<open>
  C3, amended. The fence is created at 0 with the counter then set to 1, and the invariant
  (completed value at most the last signalled value, at most the counter) holds between
  all statements of the start of \<open>WinMain\<close>. While the 64-bit counter has not wrapped, that
  is for every \<open>n\<close> with \<open>n + 1 < 2^64\<close>: after frame \<open>n\<close> the counter is \<open>n + 1\<close>, the
  completed value is at least \<open>n\<close> and the invariant holds, and it holds between all
  statements of the frame after, provided that frame's number is also below the bound. The
  same for \<^verbatim>\<open>dx12window.cpp\<close>.
\<close>

theorem fence_invariant_until_wrap:
  "exec (startup_statements boot) = exec (startup_steps boot) \<and>
   list_all fence_inv (states (startup_statements boot) (world0 globals_triangle0)) \<and>
   (fst (exec (startup_steps boot) (world0 globals_triangle0)) = Normal \<longrightarrow>
      fence_completed (platform (snd (exec (startup_steps boot) (world0 globals_triangle0)))) = 0 \<and>
      g_fenceValue (globals (snd (exec (startup_steps boot) (world0 globals_triangle0)))) = 1) \<and>
   (fst (WinMain boot its) = Looping \<and> length its + 1 < 2 ^ 64 \<longrightarrow>
      unat (g_fenceValue (globals (snd (WinMain boot its)))) = length its + 1 \<and>
      length its \<le> unat (fence_completed (platform (snd (WinMain boot its)))) \<and>
      fence_inv (snd (WinMain boot its))) \<and>
   (fst (WinMain boot its) = Looping \<and> length its + 2 < 2 ^ 64 \<longrightarrow>
      list_all fence_inv
        (states (Render_steps e) (snd (pump e ms (snd (WinMain boot its)))))) \<and>
   exec (startup_window_statements boot) = exec (startup_window_steps boot) \<and>
   list_all fence_inv (states (startup_window_statements boot) (world0 globals0)) \<and>
   (fst (exec (startup_window_steps boot) (world0 globals0)) = Normal \<longrightarrow>
      fence_completed (platform (snd (exec (startup_window_steps boot) (world0 globals0)))) = 0 \<and>
      g_fenceValue (globals (snd (exec (startup_window_steps boot) (world0 globals0)))) = 1) \<and>
   (fst (WinMain_window boot its) = Looping \<and> length its + 1 < 2 ^ 64 \<longrightarrow>
      unat (g_fenceValue (globals (snd (WinMain_window boot its)))) = length its + 1 \<and>
      length its \<le> unat (fence_completed (platform (snd (WinMain_window boot its)))) \<and>
      fence_inv (snd (WinMain_window boot its))) \<and>
   (fst (WinMain_window boot its) = Looping \<and> length its + 2 < 2 ^ 64 \<longrightarrow>
      list_all fence_inv
        (states (Render_window_steps e) (snd (pump e ms (snd (WinMain_window boot its))))))"
proof -
  have t1: "fst (exec (startup_steps boot) (world0 globals_triangle0)) = Normal \<longrightarrow>
      fence_completed (platform (snd (exec (startup_steps boot) (world0 globals_triangle0)))) = 0 \<and>
      g_fenceValue (globals (snd (exec (startup_steps boot) (world0 globals_triangle0)))) = 1"
    using startup_fence [of boot globals_triangle0] by (simp add: fence_after_def)
  have t2: "fst (WinMain boot its) = Looping \<and> length its + 1 < 2 ^ 64 \<longrightarrow>
      unat (g_fenceValue (globals (snd (WinMain boot its)))) = length its + 1 \<and>
      length its \<le> unat (fence_completed (platform (snd (WinMain boot its)))) \<and>
      fence_inv (snd (WinMain boot its))"
    using fence_after_inv [of "length its" "snd (WinMain boot its)"] WinMain_fence [of boot its]
    by simp
  have t3: "fst (WinMain boot its) = Looping \<and> length its + 2 < 2 ^ 64 \<longrightarrow>
      list_all fence_inv
        (states (Render_steps e) (snd (pump e ms (snd (WinMain boot its)))))"
    using fence_after_next_frame [of "length its" "snd (WinMain boot its)" e ms]
      WinMain_fence [of boot its]
      Render_points [of "snd (pump e ms (snd (WinMain boot its)))" e]
    by simp
  have v1: "fst (exec (startup_window_steps boot) (world0 globals0)) = Normal \<longrightarrow>
      fence_completed (platform (snd (exec (startup_window_steps boot) (world0 globals0)))) = 0 \<and>
      g_fenceValue (globals (snd (exec (startup_window_steps boot) (world0 globals0)))) = 1"
    using startup_window_fence [of boot globals0] by (simp add: fence_after_def)
  have v2: "fst (WinMain_window boot its) = Looping \<and> length its + 1 < 2 ^ 64 \<longrightarrow>
      unat (g_fenceValue (globals (snd (WinMain_window boot its)))) = length its + 1 \<and>
      length its \<le> unat (fence_completed (platform (snd (WinMain_window boot its)))) \<and>
      fence_inv (snd (WinMain_window boot its))"
    using fence_after_inv [of "length its" "snd (WinMain_window boot its)"]
      WinMain_window_fence [of boot its]
    by simp
  have v3: "fst (WinMain_window boot its) = Looping \<and> length its + 2 < 2 ^ 64 \<longrightarrow>
      list_all fence_inv
        (states (Render_window_steps e) (snd (pump e ms (snd (WinMain_window boot its)))))"
    using fence_after_next_frame [of "length its" "snd (WinMain_window boot its)" e ms]
      WinMain_window_fence [of boot its]
      Render_window_points [of "snd (pump e ms (snd (WinMain_window boot its)))" e]
    by simp
  show ?thesis
    using startup_statements_exec [of boot] startup_points [of boot]
      startup_window_points [of boot] t1 t2 t3 v1 v2 v3
    by (intro conjI)
qed

text \<open>C3, after initialisation and one frame on a platform where every call succeeds.\<close>

theorem fence_invariant_until_wrap_witness:
  "fst (exec (startup_steps env_ok) (world0 globals_triangle0)) = Normal \<and>
   fst (WinMain env_ok [([], env_ok)]) = Looping \<and>
   fst (exec (startup_window_steps env_ok) (world0 globals0)) = Normal \<and>
   fst (WinMain_window env_ok [([], env_ok)]) = Looping \<and>
   length [([] :: msg list, env_ok)] + 2 < (2 :: nat) ^ 64 \<and>
   unat (g_fenceValue (globals (snd (WinMain env_ok [([], env_ok)])))) = 2 \<and>
   1 \<le> unat (fence_completed (platform (snd (WinMain env_ok [([], env_ok)])))) \<and>
   fence_inv (snd (WinMain env_ok [([], env_ok)])) \<and>
   unat (g_fenceValue (globals (snd (WinMain_window env_ok [([], env_ok)])))) = 2 \<and>
   fence_inv (snd (WinMain_window env_ok [([], env_ok)])) \<and>
   list_all fence_inv
     (states (Render_steps env_ok) (snd (pump env_ok [] (snd (WinMain env_ok [([], env_ok)])))))"
proof -
  have a: "fst (exec (startup_steps env_ok) (world0 globals_triangle0)) = Normal"
    by (rule startup_env_ok(1))
  have b: "fst (WinMain env_ok [([], env_ok)]) = Looping"
    by (simp add: WinMain_def run_cases world0_def startup_defs env_ok_def FAILED_def
        globals_triangle0_def platform0_def Let_def Render_def Render_steps_def)
  have c: "fst (exec (startup_window_steps env_ok) (world0 globals0)) = Normal"
    by (simp add: startup_defs world0_def env_ok_def FAILED_def)
  have d: "fst (WinMain_window env_ok [([], env_ok)]) = Looping"
    by (simp add: WinMain_window_def run_cases world0_def startup_defs env_ok_def FAILED_def
        globals0_def platform0_def Let_def Render_window_def Render_window_steps_def)
  show ?thesis
    using fence_invariant_until_wrap [of env_ok "[([], env_ok)]" env_ok "[]"] a b c d
    by simp
qed

end
